theory Spec2Isabelle
  imports Main
begin

section \<open>The validated-retry requesters of gpt_structure.py\<close>

text \<open>
  The development embeds the request wrappers of
  \<^verbatim>\<open>reverie/backend_server/persona/prompt_template/gpt_structure.py\<close>:
  the single-call primitive \<^verbatim>\<open>_gpt5_nano_complete\<close>, the three request
  functions built on it and the four retry loops built on those.

  The remote service is the only source of nondeterminism. It is a parameter of every
  function: a \<open>client\<close> answers the request it is given, knowing how many requests
  were made before, by raising or by returning the content of the first choice. The
  state that is threaded through the functions is the list of the requests made so far,
  oldest first. Sleeping and printing change no value and are left out.
\<close>

subsection \<open>Python values and exceptions\<close>

text \<open>
  The values that the code passes around without knowing their type: what
  \<^verbatim>\<open>json.loads\<close> yields, what validators and cleanup functions receive and
  return, the fail-safe value, the generation parameters. Floats are not represented;
  no branch of the code looks at one.
\<close>

datatype pyval =
    PyNone
  | PyBool bool
  | PyInt int
  | PyStr string
  | PyList "pyval list"
  | PyDict "(string \<times> pyval) list"

datatype py_exception =
    APIError
  | JSONDecodeError
  | KeyError
  | TypeError
  | AttributeError
  | ValueError

text \<open>\<^verbatim>\<open>d[key]\<close>: only a dict can be subscripted by a string.\<close>

fun getitem :: "pyval \<Rightarrow> string \<Rightarrow> py_exception + pyval" where
  "getitem (PyDict kvs) k = (case map_of kvs k of None \<Rightarrow> Inl KeyError | Some v \<Rightarrow> Inr v)"
| "getitem v k = Inl TypeError"

text \<open>\<^verbatim>\<open>d.get(key, default)\<close>: only a dict has the method.\<close>

fun get_default :: "pyval \<Rightarrow> string \<Rightarrow> pyval \<Rightarrow> py_exception + pyval" where
  "get_default (PyDict kvs) k d = (case map_of kvs k of None \<Rightarrow> Inr d | Some v \<Rightarrow> Inr v)"
| "get_default v k d = Inl AttributeError"

subsection \<open>String operations\<close>

text \<open>
  A text is a list of characters, each standing for one code point below 256; texts with
  code points from 256 on are not represented. \<^verbatim>\<open>str.strip()\<close> removes
  leading and trailing whitespace, the characters of which \<^verbatim>\<open>str.isspace()\<close>
  holds: below 256, these are the code points 9 to 13, 28 to 32, 133 (U+0085) and 160
  (U+00A0).
\<close>

definition is_space :: "char \<Rightarrow> bool" where
  "is_space c =
     (let n = of_char c :: nat
      in (9 \<le> n \<and> n \<le> 13) \<or> (28 \<le> n \<and> n \<le> 32) \<or> n = 133 \<or> n = 160)"

definition strip :: "string \<Rightarrow> string" where
  "strip s = rev (dropWhile is_space (rev (dropWhile is_space s)))"

text \<open>\<^verbatim>\<open>s.rfind(c)\<close>: the highest index of \<open>c\<close> in \<open>s\<close>, or \<open>-1\<close>.\<close>

fun rfind :: "string \<Rightarrow> char \<Rightarrow> int" where
  "rfind [] c = - 1"
| "rfind (x # xs) c =
     (let r = rfind xs c in if 0 \<le> r then r + 1 else if x = c then 0 else - 1)"

text \<open>\<^verbatim>\<open>s[:i]\<close>: a negative bound counts from the end.\<close>

definition slice_to :: "string \<Rightarrow> int \<Rightarrow> string" where
  "slice_to s i = (if i < 0 then take (nat (int (length s) + i)) s else take (nat i) s)"

subsection \<open>The remote service\<close>

text \<open>
  One call of \<^verbatim>\<open>client.chat.completions.create\<close> followed by the reading of
  \<^verbatim>\<open>response.choices[0].message.content\<close>. The keyword arguments that a call
  does not pass are \<open>None\<close>. A call raises (an exception of class
  \<^verbatim>\<open>Exception\<close>, as the client library's errors are) or yields the content,
  which may be \<^verbatim>\<open>None\<close>. Interrupts and the other exceptions outside
  that class, which \<^verbatim>\<open>except Exception\<close> lets through, are not represented.
\<close>

record api_request =
  model :: string
  content :: string
  max_completion_tokens :: "pyval option"
  max_tokens :: "pyval option"
  temperature :: "int option"
  stop :: "pyval option"

datatype api_result = Raises py_exception | Content "string option"

type_synonym client = "nat \<Rightarrow> api_request \<Rightarrow> api_result"

type_synonym log = "api_request list"

definition create :: "client \<Rightarrow> api_request \<Rightarrow> log \<Rightarrow> api_result \<times> log" where
  "create cl req s = (cl (length s) req, s @ [req])"

subsection \<open>The single-call primitive\<close>

definition newline :: string where
  "newline = [CHR 0x0A]"

definition completion_prompt :: "string \<Rightarrow> string" where
  "completion_prompt prompt =
     ''Complete the following text exactly where it left off. '' @ newline @
     newline @
     ''IMPORTANT RULES:'' @ newline @
     ''1. Do NOT repeat the person'' @ [CHR 0x27] @ ''s name if it'' @ [CHR 0x27] @
       ''s already in the prompt'' @ newline @
     ''2. Do NOT include schedule entry IDs like [(ID:...)]'' @ newline @
     ''3. Do NOT add explanations or commentary'' @ newline @
     ''4. Provide only the activity description that continues the sentence'' @ newline @
     newline @
     ''Text to complete:'' @ newline @
     prompt"

definition primary_request :: "string \<Rightarrow> pyval \<Rightarrow> api_request" where
  "primary_request prompt max_output_tokens =
     \<lparr>model = ''gpt-5-nano'', content = completion_prompt prompt,
      max_completion_tokens = Some max_output_tokens, max_tokens = None,
      temperature = None, stop = None\<rparr>"

definition fallback_request :: "string \<Rightarrow> pyval \<Rightarrow> pyval \<Rightarrow> api_request" where
  "fallback_request prompt max_output_tokens stp =
     \<lparr>model = ''gpt-4o-mini'', content = completion_prompt prompt,
      max_completion_tokens = None, max_tokens = Some max_output_tokens,
      temperature = Some 0, stop = Some stp\<rparr>"

text \<open>
  \<^verbatim>\<open>content and content.strip()\<close>: the stripped text when the content is
  neither \<^verbatim>\<open>None\<close> nor empty nor blank.
\<close>

fun visible :: "api_result \<Rightarrow> string option" where
  "visible (Raises e) = None"
| "visible (Content None) = None"
| "visible (Content (Some c)) = (if c \<noteq> [] \<and> strip c \<noteq> [] then Some (strip c) else None)"

text \<open>
  \<^verbatim>\<open>_gpt5_nano_complete\<close> (an Isabelle name cannot start with an underscore).
  The inner handler catches what the first call raises and falls through to the second
  call, as an empty first answer does; the outer handler turns what the second call
  raises into the string \<^verbatim>\<open>"ChatGPT ERROR"\<close>. The function returns a string
  on every path.
\<close>

definition gpt5_nano_complete :: "client \<Rightarrow> string \<Rightarrow> pyval \<Rightarrow> pyval \<Rightarrow> log \<Rightarrow> string \<times> log" where
  "gpt5_nano_complete cl prompt max_output_tokens stp s =
     (let (r1, s1) = create cl (primary_request prompt max_output_tokens) s in
      case visible r1 of
        Some text1 \<Rightarrow> (text1, s1)
      | None \<Rightarrow>
          (let (r2, s2) = create cl (fallback_request prompt max_output_tokens stp) s1 in
           case r2 of
             Raises e \<Rightarrow> (''ChatGPT ERROR'', s2)
           | Content c \<Rightarrow>
               (case visible r2 of Some text2 \<Rightarrow> (text2, s2) | None \<Rightarrow> ([], s2))))"

subsection \<open>The request functions\<close>

text \<open>
  \<^verbatim>\<open>ChatGPT_single_request\<close>, \<^verbatim>\<open>GPT4_request\<close> and
  \<^verbatim>\<open>ChatGPT_request\<close> call the primitive with a fixed output size. The bare
  handler of the last two is never entered, since the primitive raises nothing.
\<close>

definition ChatGPT_single_request :: "client \<Rightarrow> string \<Rightarrow> log \<Rightarrow> string \<times> log" where
  "ChatGPT_single_request cl prompt s = gpt5_nano_complete cl prompt (PyInt 100) PyNone s"

definition GPT4_request :: "client \<Rightarrow> string \<Rightarrow> log \<Rightarrow> string \<times> log" where
  "GPT4_request cl prompt s = gpt5_nano_complete cl prompt (PyInt 200) PyNone s"

definition ChatGPT_request :: "client \<Rightarrow> string \<Rightarrow> log \<Rightarrow> string \<times> log" where
  "ChatGPT_request cl prompt s = gpt5_nano_complete cl prompt (PyInt 200) PyNone s"

text \<open>
  \<^verbatim>\<open>GPT_request\<close> reads two generation parameters inside its
  \<^verbatim>\<open>try\<close>; when \<^verbatim>\<open>gpt_parameter\<close> is no dict, reading raises before
  any call is made, and the handler returns the string
  \<^verbatim>\<open>"TOKEN LIMIT EXCEEDED"\<close>.
\<close>

definition GPT_request :: "client \<Rightarrow> string \<Rightarrow> pyval \<Rightarrow> log \<Rightarrow> string \<times> log" where
  "GPT_request cl prompt gpt_parameter s =
     (case get_default gpt_parameter ''max_tokens'' (PyInt 50) of
        Inl e \<Rightarrow> (''TOKEN LIMIT EXCEEDED'', s)
      | Inr mx \<Rightarrow>
          (case get_default gpt_parameter ''stop'' PyNone of
             Inl e \<Rightarrow> (''TOKEN LIMIT EXCEEDED'', s)
           | Inr stp \<Rightarrow> gpt5_nano_complete cl prompt mx stp s))"


subsection \<open>The retry loops\<close>

text \<open>
  A validator and a cleanup function are supplied by the caller. They receive the
  candidate and the prompt, and may raise. The result of the validator is only read as a
  truth value, so it is a \<open>bool\<close> here. A function that is left at its default
  \<^verbatim>\<open>None\<close> raises \<^verbatim>\<open>TypeError\<close> when it is called.
  \<^verbatim>\<open>json.loads\<close> belongs to the standard library; it is a parameter, and
  what a theorem needs to know about it is written as a hypothesis.
\<close>

type_synonym validator = "pyval \<Rightarrow> string \<Rightarrow> py_exception + bool"

type_synonym cleaner = "pyval \<Rightarrow> string \<Rightarrow> py_exception + pyval"

type_synonym decoder = "string \<Rightarrow> py_exception + pyval"

text \<open>
  One pass through the body of a \<^verbatim>\<open>for\<close> loop either leaves the function
  with a value or goes on to the next iteration. The loop variable is only printed.
  \<open>for_range n body after\<close> runs the body up to \<open>n\<close> times and, when no pass
  has returned, yields what the statement after the loop returns.
\<close>

datatype 'a step = Return 'a | Next

fun for_range :: "nat \<Rightarrow> (log \<Rightarrow> 'a step \<times> log) \<Rightarrow> 'a \<Rightarrow> log \<Rightarrow> 'a \<times> log" where
  "for_range 0 body after s = (after, s)"
| "for_range (Suc n) body after s =
     (case body s of
        (Return r, s1) \<Rightarrow> (r, s1)
      | (Next, s1) \<Rightarrow> for_range n body after s1)"

definition dq :: string where
  "dq = [CHR 0x22]"

text \<open>
  The prompt that \<^verbatim>\<open>GPT4_safe_generate_response\<close> builds;
  \<open>example_output\<close> stands for \<^verbatim>\<open>str(example_output)\<close>.
\<close>

definition GPT4_prompt :: "string \<Rightarrow> string \<Rightarrow> string \<Rightarrow> string" where
  "GPT4_prompt prompt example_output special_instruction =
     ''GPT-3 Prompt:'' @ newline @ dq @ dq @ dq @ newline @ prompt @ newline @
       dq @ dq @ dq @ newline @
     ''Output the response to the prompt above in json. '' @ special_instruction @ newline @
     ''Example output json:'' @ newline @
     ''{'' @ dq @ ''output'' @ dq @ '': '' @ dq @ example_output @ dq @ ''}''"

definition ChatGPT_prompt :: "string \<Rightarrow> string \<Rightarrow> string \<Rightarrow> string" where
  "ChatGPT_prompt prompt example_output special_instruction =
     dq @ dq @ dq @ newline @ prompt @ newline @ dq @ dq @ dq @ newline @
     ''Output the response to the prompt above in json. '' @ special_instruction @ newline @
     ''Example output json:'' @ newline @
     ''{'' @ dq @ ''output'' @ dq @ '': '' @ dq @ example_output @ dq @ ''}''"

text \<open>
  The body of the loop of \<^verbatim>\<open>GPT4_safe_generate_response\<close>: everything
  happens inside \<^verbatim>\<open>try\<close>, and the handler is \<^verbatim>\<open>pass\<close>.
\<close>

definition GPT4_attempt ::
  "decoder \<Rightarrow> client \<Rightarrow> string \<Rightarrow> validator \<Rightarrow> cleaner \<Rightarrow> log \<Rightarrow> pyval step \<times> log" where
  "GPT4_attempt json_loads cl prompt func_validate func_clean_up s =
     (let (resp, s1) = GPT4_request cl prompt s;
          stripped = strip resp;
          end_index = rfind stripped (CHR ''}'') + 1;
          sliced = slice_to stripped end_index
      in case json_loads sliced of
           Inl e \<Rightarrow> (Next, s1)
         | Inr parsed \<Rightarrow>
             (case getitem parsed ''output'' of
                Inl e \<Rightarrow> (Next, s1)
              | Inr curr_gpt_response \<Rightarrow>
                  (case func_validate curr_gpt_response prompt of
                     Inl e \<Rightarrow> (Next, s1)
                   | Inr ok \<Rightarrow>
                       if ok
                       then (case func_clean_up curr_gpt_response prompt of
                               Inl e \<Rightarrow> (Next, s1)
                             | Inr r \<Rightarrow> (Return r, s1))
                       else (Next, s1))))"

definition GPT4_safe_generate_response ::
  "decoder \<Rightarrow> client \<Rightarrow> string \<Rightarrow> string \<Rightarrow> string \<Rightarrow> int \<Rightarrow> pyval \<Rightarrow> validator \<Rightarrow> cleaner
     \<Rightarrow> log \<Rightarrow> pyval \<times> log" where
  "GPT4_safe_generate_response json_loads cl prompt example_output special_instruction
       repeat fail_safe_response func_validate func_clean_up s =
     for_range (nat repeat)
       (GPT4_attempt json_loads cl (GPT4_prompt prompt example_output special_instruction)
          func_validate func_clean_up)
       (PyBool False) s"

text \<open>The body of the loop of \<^verbatim>\<open>ChatGPT_safe_generate_response\<close>.\<close>

definition ChatGPT_attempt ::
  "decoder \<Rightarrow> client \<Rightarrow> string \<Rightarrow> validator \<Rightarrow> cleaner \<Rightarrow> log \<Rightarrow> pyval step \<times> log" where
  "ChatGPT_attempt json_loads cl prompt func_validate func_clean_up s =
     (let (resp, s1) = ChatGPT_request cl prompt s;
          stripped = strip resp;
          end_index = rfind stripped (CHR ''}'') + 1;
          sliced = slice_to stripped end_index
      in case json_loads sliced of
           Inl e \<Rightarrow> (Next, s1)
         | Inr parsed \<Rightarrow>
             (case getitem parsed ''output'' of
                Inl e \<Rightarrow> (Next, s1)
              | Inr curr_gpt_response \<Rightarrow>
                  (case func_validate curr_gpt_response prompt of
                     Inl e \<Rightarrow> (Next, s1)
                   | Inr ok \<Rightarrow>
                       if ok
                       then (case func_clean_up curr_gpt_response prompt of
                               Inl e \<Rightarrow> (Next, s1)
                             | Inr r \<Rightarrow> (Return r, s1))
                       else (Next, s1))))"

definition ChatGPT_safe_generate_response ::
  "decoder \<Rightarrow> client \<Rightarrow> string \<Rightarrow> string \<Rightarrow> string \<Rightarrow> int \<Rightarrow> pyval \<Rightarrow> validator \<Rightarrow> cleaner
     \<Rightarrow> log \<Rightarrow> pyval \<times> log" where
  "ChatGPT_safe_generate_response json_loads cl prompt example_output special_instruction
       repeat fail_safe_response func_validate func_clean_up s =
     for_range (nat repeat)
       (ChatGPT_attempt json_loads cl (ChatGPT_prompt prompt example_output special_instruction)
          func_validate func_clean_up)
       (PyBool False) s"

text \<open>
  The body of the loop of \<^verbatim>\<open>ChatGPT_safe_generate_response_OLD\<close>: the
  stripped response is the candidate.
\<close>

definition ChatGPT_OLD_attempt ::
  "client \<Rightarrow> string \<Rightarrow> validator \<Rightarrow> cleaner \<Rightarrow> log \<Rightarrow> pyval step \<times> log" where
  "ChatGPT_OLD_attempt cl prompt func_validate func_clean_up s =
     (let (resp, s1) = ChatGPT_request cl prompt s;
          curr_gpt_response = PyStr (strip resp)
      in case func_validate curr_gpt_response prompt of
           Inl e \<Rightarrow> (Next, s1)
         | Inr ok \<Rightarrow>
             if ok
             then (case func_clean_up curr_gpt_response prompt of
                     Inl e \<Rightarrow> (Next, s1)
                   | Inr r \<Rightarrow> (Return r, s1))
             else (Next, s1))"

definition ChatGPT_safe_generate_response_OLD ::
  "client \<Rightarrow> string \<Rightarrow> int \<Rightarrow> pyval \<Rightarrow> validator \<Rightarrow> cleaner \<Rightarrow> log \<Rightarrow> pyval \<times> log" where
  "ChatGPT_safe_generate_response_OLD cl prompt repeat fail_safe_response
       func_validate func_clean_up s =
     for_range (nat repeat) (ChatGPT_OLD_attempt cl prompt func_validate func_clean_up)
       fail_safe_response s"

text \<open>
  The body of the loop of \<^verbatim>\<open>safe_generate_response\<close>. There is no
  \<^verbatim>\<open>try\<close>: what the validator or the cleanup function raises leaves the
  function, so the function yields an exception or a value.
\<close>

definition sentinels :: "string list" where
  "sentinels = [''TOKEN LIMIT EXCEEDED'', ''ChatGPT ERROR'']"

definition safe_attempt ::
  "client \<Rightarrow> string \<Rightarrow> pyval \<Rightarrow> validator \<Rightarrow> cleaner \<Rightarrow> log
     \<Rightarrow> (py_exception + pyval) step \<times> log" where
  "safe_attempt cl prompt gpt_parameter func_validate func_clean_up s =
     (let (curr_gpt_response, s1) = GPT_request cl prompt gpt_parameter s
      in if curr_gpt_response \<in> set sentinels then (Next, s1)
         else (case func_validate (PyStr curr_gpt_response) prompt of
                 Inl e \<Rightarrow> (Return (Inl e), s1)
               | Inr ok \<Rightarrow>
                   if ok then (Return (func_clean_up (PyStr curr_gpt_response) prompt), s1)
                   else (Next, s1)))"

definition safe_generate_response ::
  "client \<Rightarrow> string \<Rightarrow> pyval \<Rightarrow> int \<Rightarrow> pyval \<Rightarrow> validator \<Rightarrow> cleaner \<Rightarrow> log
     \<Rightarrow> (py_exception + pyval) \<times> log" where
  "safe_generate_response cl prompt gpt_parameter repeat fail_safe_response
       func_validate func_clean_up s =
     for_range (nat repeat) (safe_attempt cl prompt gpt_parameter func_validate func_clean_up)
       (Inr fail_safe_response) s"

subsection \<open>Counting calls\<close>

text \<open>
  Every run of the single-call primitive makes exactly one request to the first model,
  so the requests to \<^verbatim>\<open>gpt-5-nano\<close> in the log count the runs of the
  primitive, that is, the transport calls of the retry loops; the requests to
  \<^verbatim>\<open>gpt-4o-mini\<close> count the fallbacks.
\<close>

definition primary_calls :: "log \<Rightarrow> nat" where
  "primary_calls s = length (filter (\<lambda>r. model r = ''gpt-5-nano'') s)"

definition fallback_calls :: "log \<Rightarrow> nat" where
  "fallback_calls s = length (filter (\<lambda>r. model r = ''gpt-4o-mini'') s)"

text \<open>
  \<open>all_next n body s\<close>: each of the \<open>n\<close> passes through the body, started in
  \<open>s\<close>, goes on to the next iteration; none returns.
\<close>

fun all_next :: "nat \<Rightarrow> (log \<Rightarrow> 'a step \<times> log) \<Rightarrow> log \<Rightarrow> bool" where
  "all_next 0 body s = True"
| "all_next (Suc n) body s =
     (case body s of (Return r, s1) \<Rightarrow> False | (Next, s1) \<Rightarrow> all_next n body s1)"

text \<open>
  \<open>state_after k body s\<close>: the log after \<open>k\<close> passes through the body, started
  in \<open>s\<close>.
\<close>

fun state_after :: "nat \<Rightarrow> (log \<Rightarrow> 'a step \<times> log) \<Rightarrow> log \<Rightarrow> log" where
  "state_after 0 body s = s"
| "state_after (Suc k) body s = state_after k body (snd (body s))"

text \<open>
  \<open>gives_no_text r\<close>: the call raised, or its content is \<^verbatim>\<open>None\<close>, empty
  or made of whitespace only.
\<close>

fun gives_no_text :: "api_result \<Rightarrow> bool" where
  "gives_no_text (Raises e) = True"
| "gives_no_text (Content None) = True"
| "gives_no_text (Content (Some c)) = (\<forall>ch \<in> set c. is_space ch)"


subsection \<open>Sample inputs\<close>

text \<open>
  Concrete clients, validators and cleanup functions, on which the theorems below are
  instantiated. \<open>json_loads_sample\<close> agrees with \<^verbatim>\<open>json.loads\<close> on the two
  texts that the samples decode, the empty text and \<open>sample_json\<close>, which is
  \<^verbatim>\<open>{"output": "ok"}\<close>, and is used on no other text.
\<close>

definition always_raises :: client where
  "always_raises n req = Raises APIError"

definition sample_json :: string where
  "sample_json = ''{'' @ dq @ ''output'' @ dq @ '': '' @ dq @ ''ok'' @ dq @ ''}''"

definition json_loads_sample :: decoder where
  "json_loads_sample s =
     (if s = sample_json then Inr (PyDict [(''output'', PyStr ''ok'')])
      else Inl JSONDecodeError)"

definition answers_json :: client where
  "answers_json n req = Content (Some sample_json)"

definition accept_nonempty :: validator where
  "accept_nonempty c p = (case c of PyStr t \<Rightarrow> Inr (t \<noteq> []) | _ \<Rightarrow> Inr False)"

definition keep :: cleaner where
  "keep c p = Inr c"


definition says_error :: client where
  "says_error n req = Content (Some ''ChatGPT ERROR'')"

definition reject_all :: validator where
  "reject_all c p = Inr False"

definition raising_validator :: validator where
  "raising_validator c p = Inl ValueError"

definition raising_cleaner :: cleaner where
  "raising_cleaner c p = Inl ValueError"

definition blank_text :: string where
  "blank_text = [CHR 0x20, CHR 0x09, CHR 0x0A, CHR 0xA0]"

definition answers_blank :: client where
  "answers_blank n req = Content (Some blank_text)"


definition accept_all :: validator where
  "accept_all c p = Inr True"

definition json_on_second_attempt :: client where
  "json_on_second_attempt n req =
     (if n = 2 then Content (Some sample_json) else Content (Some []))"

definition extract_output :: cleaner where
  "extract_output c p = getitem c ''output''"


section \<open>Properties\<close>

subsection \<open>The primitive and the request functions\<close>

lemma gpt5_nano_complete_unfold:
  "gpt5_nano_complete cl p m st s =
     (case visible (cl (length s) (primary_request p m)) of
        Some t \<Rightarrow> (t, s @ [primary_request p m])
      | None \<Rightarrow>
          (case cl (Suc (length s)) (fallback_request p m st) of
             Raises e \<Rightarrow> (''ChatGPT ERROR'', s @ [primary_request p m, fallback_request p m st])
           | Content c \<Rightarrow>
               (case visible (Content c) of
                  Some t \<Rightarrow> (t, s @ [primary_request p m, fallback_request p m st])
                | None \<Rightarrow> ([], s @ [primary_request p m, fallback_request p m st]))))"
  by (simp add: gpt5_nano_complete_def create_def split: option.splits api_result.splits)

lemma primary_calls_append [simp]:
  "primary_calls (s @ t) = primary_calls s + primary_calls t"
  by (simp add: primary_calls_def)

lemma fallback_calls_append [simp]:
  "fallback_calls (s @ t) = fallback_calls s + fallback_calls t"
  by (simp add: fallback_calls_def)

lemma calls_of_requests [simp]:
  "primary_calls [primary_request p m] = 1"
  "primary_calls [fallback_request p m st] = 0"
  "fallback_calls [primary_request p m] = 0"
  "fallback_calls [fallback_request p m st] = 1"
  "primary_calls [primary_request p m, fallback_request p m st] = 1"
  "fallback_calls [primary_request p m, fallback_request p m st] = 1"
  by (simp_all add: primary_calls_def fallback_calls_def primary_request_def fallback_request_def)

lemma primary_calls_gpt5:
  "primary_calls (snd (gpt5_nano_complete cl p m st s)) = Suc (primary_calls s)"
  by (simp add: gpt5_nano_complete_unfold split: option.splits api_result.splits)

lemma primary_calls_ChatGPT_request:
  "primary_calls (snd (ChatGPT_request cl p s)) = Suc (primary_calls s)"
  by (simp add: ChatGPT_request_def primary_calls_gpt5)

lemma primary_calls_GPT4_request:
  "primary_calls (snd (GPT4_request cl p s)) = Suc (primary_calls s)"
  by (simp add: GPT4_request_def primary_calls_gpt5)

lemma GPT_request_cases:
  "(\<exists>kvs. gpt_parameter = PyDict kvs \<and>
      GPT_request cl p gpt_parameter s =
        gpt5_nano_complete cl p
          (case map_of kvs ''max_tokens'' of None \<Rightarrow> PyInt 50 | Some v \<Rightarrow> v)
          (case map_of kvs ''stop'' of None \<Rightarrow> PyNone | Some v \<Rightarrow> v) s) \<or>
   ((\<forall>kvs. gpt_parameter \<noteq> PyDict kvs) \<and>
      GPT_request cl p gpt_parameter s = (''TOKEN LIMIT EXCEEDED'', s))"
  by (cases gpt_parameter) (simp_all add: GPT_request_def split: option.splits)

lemma primary_calls_GPT_request:
  "fst (GPT_request cl p gp s) \<notin> set sentinels \<Longrightarrow>
     primary_calls (snd (GPT_request cl p gp s)) = Suc (primary_calls s)"
  using GPT_request_cases [of gp cl p s]
  by (auto simp: primary_calls_gpt5 sentinels_def)

subsection \<open>The loop\<close>

lemma for_range_first_return:
  "0 < n \<Longrightarrow> body s = (Return r, s1) \<Longrightarrow> for_range n body a s = (r, s1)"
  by (cases n) simp_all

lemma for_range_all_next:
  "all_next n body s \<Longrightarrow> fst (for_range n body a s) = a"
  by (induction n arbitrary: s) (auto split: prod.splits step.splits)

lemma for_range_count:
  assumes "\<And>s. primary_calls (snd (body s)) = Suc (primary_calls s)"
  shows "all_next n body s \<Longrightarrow> primary_calls (snd (for_range n body a s)) = primary_calls s + n"
proof (induction n arbitrary: s)
  case 0
  then show ?case by simp
next
  case (Suc n)
  from Suc.prems obtain s1 where b: "body s = (Next, s1)" and an: "all_next n body s1"
    by (auto split: prod.splits step.splits)
  from assms [of s] b have "primary_calls s1 = Suc (primary_calls s)" by simp
  with Suc.IH [OF an] b show ?case by simp
qed

lemma for_range_bound:
  assumes "\<And>s. primary_calls (snd (body s)) \<le> Suc (primary_calls s)"
  shows "primary_calls (snd (for_range n body a s)) \<le> primary_calls s + n"
proof (induction n arbitrary: s)
  case 0
  then show ?case by simp
next
  case (Suc n)
  obtain st s1 where b: "body s = (st, s1)" by (cases "body s")
  from assms [of s] b have le: "primary_calls s1 \<le> Suc (primary_calls s)" by simp
  show ?case
  proof (cases st)
    case (Return r)
    with b le show ?thesis by simp
  next
    case Next
    with b le Suc.IH [of s1] show ?thesis by simp
  qed
qed

lemma strip_Nil [simp]: "strip [] = []"
  by (simp add: strip_def)

lemma visible_None_iff:
  "visible r = None \<longleftrightarrow>
     (\<exists>e. r = Raises e) \<or> r = Content None \<or> (\<exists>c. r = Content (Some c) \<and> strip c = [])"
  by (cases r rule: visible.cases) auto

lemma safe_first_success:
  assumes "0 < repeat" and "GPT_request cl p gp s = (resp, t)" and "resp \<notin> set sentinels"
    and "v (PyStr resp) p = Inr True" and "c (PyStr resp) p = Inr r"
  shows "safe_generate_response cl p gp repeat fs v c s = (Inr r, t)"
proof -
  from assms have a: "safe_attempt cl p gp v c s = (Return (Inr r), t)"
    by (simp add: safe_attempt_def)
  from assms(1) have n: "0 < nat repeat" by simp
  show ?thesis
    unfolding safe_generate_response_def using n a by (rule for_range_first_return)
qed

lemma OLD_first_success:
  assumes "0 < repeat" and "ChatGPT_request cl p s = (resp, t)"
    and "v (PyStr (strip resp)) p = Inr True" and "c (PyStr (strip resp)) p = Inr r"
  shows "ChatGPT_safe_generate_response_OLD cl p repeat fs v c s = (r, t)"
proof -
  from assms have a: "ChatGPT_OLD_attempt cl p v c s = (Return r, t)"
    by (simp add: ChatGPT_OLD_attempt_def)
  from assms(1) have n: "0 < nat repeat" by simp
  show ?thesis
    unfolding ChatGPT_safe_generate_response_OLD_def using n a by (rule for_range_first_return)
qed



lemma gpt5_primary_success:
  "visible (cl (length s) (primary_request p m)) = Some t \<Longrightarrow>
     gpt5_nano_complete cl p m st s = (t, s @ [primary_request p m])"
  by (simp add: gpt5_nano_complete_unfold)



lemma rfind_bounds: "- 1 \<le> rfind xs c \<and> rfind xs c < int (length xs)"
  by (induction xs) (auto simp: Let_def)

lemma rfind_negative_iff: "rfind xs c < 0 \<longleftrightarrow> c \<notin> set xs"
  by (induction xs) (auto simp: Let_def)

lemma rfind_found:
  "c \<in> set xs \<Longrightarrow>
     xs ! nat (rfind xs c) = c \<and> c \<notin> set (drop (Suc (nat (rfind xs c))) xs)"
proof (induction xs)
  case Nil
  then show ?case by simp
next
  case (Cons x xs)
  show ?case
  proof (cases "c \<in> set xs")
    case True
    then have "0 \<le> rfind xs c" using rfind_negative_iff [of xs c] by simp
    with Cons.IH [OF True] show ?thesis
      by (simp add: Let_def nat_add_distrib)
  next
    case False
    then have "rfind xs c < 0" using rfind_negative_iff [of xs c] by simp
    with False Cons.prems show ?thesis by (simp add: Let_def)
  qed
qed

lemma slice_without_brace:
  "c \<notin> set xs \<Longrightarrow> slice_to xs (rfind xs c + 1) = []"
proof -
  assume "c \<notin> set xs"
  then have "rfind xs c < 0" by (simp add: rfind_negative_iff)
  with rfind_bounds [of xs c] have "rfind xs c = - 1" by simp
  then show ?thesis by (simp add: slice_to_def)
qed

lemma slice_through_last_brace:
  assumes "c \<in> set xs"
  shows "\<exists>rest. xs = slice_to xs (rfind xs c + 1) @ rest \<and>
           slice_to xs (rfind xs c + 1) \<noteq> [] \<and>
           last (slice_to xs (rfind xs c + 1)) = c \<and> c \<notin> set rest"
proof -
  let ?k = "nat (rfind xs c)"
  from assms have nn: "0 \<le> rfind xs c" using rfind_negative_iff [of xs c] by simp
  with rfind_bounds [of xs c] have lt: "?k < length xs" by simp
  from nn have sl: "slice_to xs (rfind xs c + 1) = take (Suc ?k) xs"
    by (simp add: slice_to_def nat_add_distrib)
  from lt have ne: "take (Suc ?k) xs \<noteq> []" by (cases xs) auto
  from lt have "last (take (Suc ?k) xs) = xs ! ?k"
    by (simp add: take_Suc_conv_app_nth)
  with rfind_found [OF assms] have la: "last (take (Suc ?k) xs) = c" by simp
  have "xs = take (Suc ?k) xs @ drop (Suc ?k) xs" by simp
  with sl ne la rfind_found [OF assms] show ?thesis by metis
qed

lemma getitem_Inr_iff:
  "getitem j k = Inr x \<longleftrightarrow> (\<exists>kvs. j = PyDict kvs \<and> map_of kvs k = Some x)"
  by (cases j) (auto split: option.splits)

lemma ChatGPT_attempt_log:
  "snd (ChatGPT_attempt jl cl q v c s) = snd (ChatGPT_request cl q s)"
  by (simp add: ChatGPT_attempt_def Let_def split: prod.splits sum.splits)

lemma GPT4_attempt_log:
  "snd (GPT4_attempt jl cl q v c s) = snd (GPT4_request cl q s)"
  by (simp add: GPT4_attempt_def Let_def split: prod.splits sum.splits)

lemma ChatGPT_attempt_Return_iff:
  "fst (ChatGPT_attempt jl cl q v c s) = Return r \<longleftrightarrow>
     (\<exists>kvs out.
        jl (slice_to (strip (fst (ChatGPT_request cl q s)))
              (rfind (strip (fst (ChatGPT_request cl q s))) (CHR ''}'') + 1)) = Inr (PyDict kvs) \<and>
        map_of kvs ''output'' = Some out \<and> v out q = Inr True \<and> c out q = Inr r)"
  by (auto simp: ChatGPT_attempt_def Let_def getitem_Inr_iff split: prod.splits sum.splits)

lemma GPT4_attempt_Return_iff:
  "fst (GPT4_attempt jl cl q v c s) = Return r \<longleftrightarrow>
     (\<exists>kvs out.
        jl (slice_to (strip (fst (GPT4_request cl q s)))
              (rfind (strip (fst (GPT4_request cl q s))) (CHR ''}'') + 1)) = Inr (PyDict kvs) \<and>
        map_of kvs ''output'' = Some out \<and> v out q = Inr True \<and> c out q = Inr r)"
  by (auto simp: GPT4_attempt_def Let_def getitem_Inr_iff split: prod.splits sum.splits)

lemma step_not_Return: "(\<forall>r. x \<noteq> Return r) \<longleftrightarrow> x = Next"
  by (cases x) auto

lemma for_range_Next:
  "fst (body s) = Next \<Longrightarrow> for_range (Suc n) body a s = for_range n body a (snd (body s))"
  by (cases "body s") simp

lemma safe_attempt_log:
  "snd (safe_attempt cl p gp v c s) = snd (GPT_request cl p gp s)"
  by (simp add: safe_attempt_def Let_def split: prod.splits sum.splits)

lemma safe_attempt_sentinel:
  "fst (GPT_request cl p gp s) \<in> set sentinels \<Longrightarrow>
     safe_attempt cl p gp v c s = (Next, snd (GPT_request cl p gp s))"
  by (cases "GPT_request cl p gp s") (simp add: safe_attempt_def)

lemma GPT_request_dict:
  "get_default gp ''max_tokens'' (PyInt 50) = Inr mx \<Longrightarrow>
   get_default gp ''stop'' PyNone = Inr stp \<Longrightarrow>
     GPT_request cl p gp s = gpt5_nano_complete cl p mx stp s"
  by (simp add: GPT_request_def)

lemma visible_text:
  "strip tx \<noteq> [] \<Longrightarrow> visible (Content (Some tx)) = Some (strip tx)"
  by auto

lemma all_next_always:
  assumes "\<And>s. fst (body s) = Next"
  shows "all_next n body s"
proof (induction n arbitrary: s)
  case 0
  show ?case by simp
next
  case (Suc n)
  from assms [of s] obtain s1 where "body s = (Next, s1)" by (cases "body s") auto
  with Suc.IH [of s1] show ?case by simp
qed

lemma safe_attempt_Next_iff:
  "fst (safe_attempt cl p gp v c s) = Next \<longleftrightarrow>
     fst (GPT_request cl p gp s) \<in> set sentinels \<or>
     v (PyStr (fst (GPT_request cl p gp s))) p = Inr False"
  by (cases "GPT_request cl p gp s") (auto simp: safe_attempt_def split: sum.splits)

lemma OLD_attempt_Next_iff:
  "fst (ChatGPT_OLD_attempt cl p v c s) = Next \<longleftrightarrow>
     \<not> (v (PyStr (strip (fst (ChatGPT_request cl p s)))) p = Inr True \<and>
        (\<exists>r. c (PyStr (strip (fst (ChatGPT_request cl p s)))) p = Inr r))"
  by (cases "ChatGPT_request cl p s")
    (auto simp: ChatGPT_OLD_attempt_def Let_def split: sum.splits)

lemma ChatGPT_attempt_Next_iff:
  "fst (ChatGPT_attempt jl cl q v c s) = Next \<longleftrightarrow>
     \<not> (\<exists>kvs out r.
          jl (slice_to (strip (fst (ChatGPT_request cl q s)))
                (rfind (strip (fst (ChatGPT_request cl q s))) (CHR ''}'') + 1))
            = Inr (PyDict kvs) \<and>
          map_of kvs ''output'' = Some out \<and> v out q = Inr True \<and> c out q = Inr r)"
proof -
  have "fst (ChatGPT_attempt jl cl q v c s) = Next \<longleftrightarrow>
      (\<forall>r. fst (ChatGPT_attempt jl cl q v c s) \<noteq> Return r)"
    by (simp add: step_not_Return)
  then show ?thesis unfolding ChatGPT_attempt_Return_iff by blast
qed

lemma GPT4_attempt_Next_iff:
  "fst (GPT4_attempt jl cl q v c s) = Next \<longleftrightarrow>
     \<not> (\<exists>kvs out r.
          jl (slice_to (strip (fst (GPT4_request cl q s)))
                (rfind (strip (fst (GPT4_request cl q s))) (CHR ''}'') + 1))
            = Inr (PyDict kvs) \<and>
          map_of kvs ''output'' = Some out \<and> v out q = Inr True \<and> c out q = Inr r)"
proof -
  have "fst (GPT4_attempt jl cl q v c s) = Next \<longleftrightarrow>
      (\<forall>r. fst (GPT4_attempt jl cl q v c s) \<noteq> Return r)"
    by (simp add: step_not_Return)
  then show ?thesis unfolding GPT4_attempt_Return_iff by blast
qed




lemma attempt_request_bound:
  "primary_calls (snd (safe_attempt cl p gp v c s)) \<le> Suc (primary_calls s)"
  "primary_calls (snd (ChatGPT_OLD_attempt cl p v c s)) \<le> Suc (primary_calls s)"
  "primary_calls (snd (GPT4_attempt jl cl q v c s)) \<le> Suc (primary_calls s)"
  "primary_calls (snd (ChatGPT_attempt jl cl q v c s)) \<le> Suc (primary_calls s)"
proof -
  show "primary_calls (snd (safe_attempt cl p gp v c s)) \<le> Suc (primary_calls s)"
    using GPT_request_cases [of gp cl p s]
    by (auto simp: safe_attempt_log primary_calls_gpt5)
  have "snd (ChatGPT_OLD_attempt cl p v c s) = snd (ChatGPT_request cl p s)"
    by (simp add: ChatGPT_OLD_attempt_def Let_def split: prod.splits sum.splits)
  then show "primary_calls (snd (ChatGPT_OLD_attempt cl p v c s)) \<le> Suc (primary_calls s)"
    by (simp add: primary_calls_ChatGPT_request)
  show "primary_calls (snd (GPT4_attempt jl cl q v c s)) \<le> Suc (primary_calls s)"
    by (simp add: GPT4_attempt_log primary_calls_GPT4_request)
  show "primary_calls (snd (ChatGPT_attempt jl cl q v c s)) \<le> Suc (primary_calls s)"
    by (simp add: ChatGPT_attempt_log primary_calls_ChatGPT_request)
qed

lemma OLD_attempt_log:
  "snd (ChatGPT_OLD_attempt cl p v c s) = snd (ChatGPT_request cl p s)"
  by (simp add: ChatGPT_OLD_attempt_def Let_def split: prod.splits sum.splits)

lemma for_range_Next_state:
  "body s = (Next, s1) \<Longrightarrow> for_range (Suc n) body a s = for_range n body a s1"
  by simp

lemma empty_slice: "slice_to [] i = []"
  by (simp add: slice_to_def)

lemma empty_invisible: "visible (Content (Some [])) = None"
  by simp

lemma strip_empty_iff: "strip s = [] \<longleftrightarrow> (\<forall>ch \<in> set s. is_space ch)"
proof -
  have "strip s = [] \<longleftrightarrow> (\<forall>ch \<in> set (dropWhile is_space s). is_space ch)"
    by (simp add: strip_def dropWhile_eq_Nil_conv)
  also have "\<dots> \<longleftrightarrow> dropWhile is_space s = []"
  proof
    assume a: "\<forall>ch \<in> set (dropWhile is_space s). is_space ch"
    show "dropWhile is_space s = []"
    proof (rule ccontr)
      assume n: "dropWhile is_space s \<noteq> []"
      then have "\<not> is_space (hd (dropWhile is_space s))" by (rule hd_dropWhile)
      with a n show False by simp
    qed
  qed (auto dest: set_dropWhileD)
  also have "\<dots> \<longleftrightarrow> (\<forall>ch \<in> set s. is_space ch)"
    by (simp add: dropWhile_eq_Nil_conv)
  finally show ?thesis .
qed

lemma visible_None_iff_no_text: "visible r = None \<longleftrightarrow> gives_no_text r"
  by (cases r rule: visible.cases) (auto simp: strip_empty_iff)


lemma strip_first_not_space:
  "strip s \<noteq> [] \<Longrightarrow> \<not> is_space (hd (strip s))"
proof -
  assume n: "strip s \<noteq> []"
  let ?d = "dropWhile is_space s"
  have d: "?d = strip s @ rev (takeWhile is_space (rev ?d))"
    unfolding strip_def by (metis rev_append rev_rev_ident takeWhile_dropWhile_id)
  from n have "?d \<noteq> []" by (auto simp: strip_def simp del: dropWhile_eq_Nil_conv)
  then have "\<not> is_space (hd ?d)" by (rule hd_dropWhile)
  moreover from d n have "hd ?d = hd (strip s)" by (metis hd_append2)
  ultimately show ?thesis by simp
qed





lemma for_range_stops:
  "k < n \<Longrightarrow> all_next k body s \<Longrightarrow> body (state_after k body s) = (Return r, t) \<Longrightarrow>
     for_range n body a s = (r, t)"
proof (induction k arbitrary: n s)
  case 0
  then obtain n' where "n = Suc n'" by (cases n) auto
  with 0 show ?case by simp
next
  case (Suc k)
  then obtain n' where n: "n = Suc n'" and k: "k < n'" by (cases n) auto
  from Suc.prems(2) obtain s1 where b: "body s = (Next, s1)" and a: "all_next k body s1"
    by (auto split: prod.splits step.splits)
  from Suc.prems(3) b have "body (state_after k body s1) = (Return r, t)" by simp
  from Suc.IH [OF k a this] have "for_range n' body a s1 = (r, t)" .
  with n b show ?case by simp
qed

lemma state_after_count:
  assumes "\<And>s. primary_calls (snd (body s)) = Suc (primary_calls s)"
  shows "primary_calls (state_after k body s) = primary_calls s + k"
proof (induction k arbitrary: s)
  case 0
  show ?case by simp
next
  case (Suc k)
  have "primary_calls (state_after (Suc k) body s) = primary_calls (snd (body s)) + k"
    using Suc.IH [of "snd (body s)"] by simp
  with assms [of s] show ?case by simp
qed

lemma OLD_attempt_Return:
  assumes "ChatGPT_request cl p s = (resp, t)"
    and "v (PyStr (strip resp)) p = Inr True" and "c (PyStr (strip resp)) p = Inr r"
  shows "ChatGPT_OLD_attempt cl p v c s = (Return r, t)"
  using assms by (simp add: ChatGPT_OLD_attempt_def)

lemma OLD_attempt_cleanup_raises:
  assumes "ChatGPT_request cl p s = (resp, t)"
    and "v (PyStr (strip resp)) p = Inr True" and "c (PyStr (strip resp)) p = Inl e"
  shows "ChatGPT_OLD_attempt cl p v c s = (Next, t)"
  using assms by (simp add: ChatGPT_OLD_attempt_def)

lemma ChatGPT_attempt_Return:
  assumes "ChatGPT_request cl q s = (resp, t)"
    and "jl (slice_to (strip resp) (rfind (strip resp) (CHR ''}'') + 1)) = Inr parsed"
    and "getitem parsed ''output'' = Inr out"
    and "v out q = Inr True" and "c out q = Inr r"
  shows "ChatGPT_attempt jl cl q v c s = (Return r, t)"
  using assms by (simp add: ChatGPT_attempt_def)

lemma ChatGPT_attempt_cleanup_raises:
  assumes "ChatGPT_request cl q s = (resp, t)"
    and "jl (slice_to (strip resp) (rfind (strip resp) (CHR ''}'') + 1)) = Inr parsed"
    and "getitem parsed ''output'' = Inr out"
    and "v out q = Inr True" and "c out q = Inl e"
  shows "ChatGPT_attempt jl cl q v c s = (Next, t)"
  using assms by (simp add: ChatGPT_attempt_def)

lemma GPT4_attempt_Return:
  assumes "GPT4_request cl q s = (resp, t)"
    and "jl (slice_to (strip resp) (rfind (strip resp) (CHR ''}'') + 1)) = Inr parsed"
    and "getitem parsed ''output'' = Inr out"
    and "v out q = Inr True" and "c out q = Inr r"
  shows "GPT4_attempt jl cl q v c s = (Return r, t)"
  using assms by (simp add: GPT4_attempt_def)

lemma GPT4_attempt_cleanup_raises:
  assumes "GPT4_request cl q s = (resp, t)"
    and "jl (slice_to (strip resp) (rfind (strip resp) (CHR ''}'') + 1)) = Inr parsed"
    and "getitem parsed ''output'' = Inr out"
    and "v out q = Inr True" and "c out q = Inl e"
  shows "GPT4_attempt jl cl q v c s = (Next, t)"
  using assms by (simp add: GPT4_attempt_def)

lemma safe_attempt_Return:
  assumes "GPT_request cl p gp s = (resp, t)" and "resp \<notin> set sentinels"
    and "v (PyStr resp) p = Inr True"
  shows "safe_attempt cl p gp v c s = (Return (c (PyStr resp) p), t)"
  using assms by (simp add: safe_attempt_def)

lemma OLD_attempt_count:
  "primary_calls (snd (ChatGPT_OLD_attempt cl p v c s)) = Suc (primary_calls s)"
  by (simp add: OLD_attempt_log primary_calls_ChatGPT_request)

lemma ChatGPT_attempt_count:
  "primary_calls (snd (ChatGPT_attempt jl cl q v c s)) = Suc (primary_calls s)"
  by (simp add: ChatGPT_attempt_log primary_calls_ChatGPT_request)

lemma GPT4_attempt_count:
  "primary_calls (snd (GPT4_attempt jl cl q v c s)) = Suc (primary_calls s)"
  by (simp add: GPT4_attempt_log primary_calls_GPT4_request)

lemma safe_attempt_count:
  assumes "fst (GPT_request cl p gp s0) \<notin> set sentinels"
  shows "primary_calls (snd (safe_attempt cl p gp v c s)) = Suc (primary_calls s)"
proof -
  from assms GPT_request_cases [of gp cl p s0]
  obtain kvs where "gp = PyDict kvs" by (auto simp: sentinels_def)
  then show ?thesis
    by (simp add: safe_attempt_log GPT_request_def primary_calls_gpt5 split: option.splits)
qed

lemma safe_stops:
  assumes "k < nat repeat" and "all_next k (safe_attempt cl p gp v c) s"
    and "GPT_request cl p gp (state_after k (safe_attempt cl p gp v c) s) = (resp, t)"
    and "resp \<notin> set sentinels" and "v (PyStr resp) p = Inr True"
  shows "safe_generate_response cl p gp repeat fs v c s = (c (PyStr resp) p, t) \<and>
         primary_calls t = primary_calls s + k + 1"
proof
  have "safe_attempt cl p gp v c (state_after k (safe_attempt cl p gp v c) s)
      = (Return (c (PyStr resp) p), t)"
    using assms(3-5) by (rule safe_attempt_Return)
  with assms(1,2) show "safe_generate_response cl p gp repeat fs v c s = (c (PyStr resp) p, t)"
    unfolding safe_generate_response_def by (rule for_range_stops)
  from assms(3,4)
  have ns: "fst (GPT_request cl p gp (state_after k (safe_attempt cl p gp v c) s)) \<notin> set sentinels"
    by simp
  have "primary_calls (state_after k (safe_attempt cl p gp v c) s) = primary_calls s + k"
    by (rule state_after_count) (rule safe_attempt_count [OF ns])
  moreover have "primary_calls (snd (GPT_request cl p gp
      (state_after k (safe_attempt cl p gp v c) s))) =
      Suc (primary_calls (state_after k (safe_attempt cl p gp v c) s))"
    using ns by (rule primary_calls_GPT_request)
  ultimately show "primary_calls t = primary_calls s + k + 1"
    using assms(3) by simp
qed

lemma OLD_stops:
  assumes "k < nat repeat" and "all_next k (ChatGPT_OLD_attempt cl p v c) s"
    and "ChatGPT_request cl p (state_after k (ChatGPT_OLD_attempt cl p v c) s) = (resp, t)"
    and "v (PyStr (strip resp)) p = Inr True" and "c (PyStr (strip resp)) p = Inr r"
  shows "ChatGPT_safe_generate_response_OLD cl p repeat fs v c s = (r, t) \<and>
         primary_calls t = primary_calls s + k + 1"
proof
  have "ChatGPT_OLD_attempt cl p v c (state_after k (ChatGPT_OLD_attempt cl p v c) s)
      = (Return r, t)"
    using assms(3-5) by (rule OLD_attempt_Return)
  with assms(1,2) show "ChatGPT_safe_generate_response_OLD cl p repeat fs v c s = (r, t)"
    unfolding ChatGPT_safe_generate_response_OLD_def by (rule for_range_stops)
  have "primary_calls (state_after k (ChatGPT_OLD_attempt cl p v c) s) = primary_calls s + k"
    by (rule state_after_count) (rule OLD_attempt_count)
  with primary_calls_ChatGPT_request [of cl p "state_after k (ChatGPT_OLD_attempt cl p v c) s"]
    assms(3)
  show "primary_calls t = primary_calls s + k + 1" by simp
qed

lemma ChatGPT_stops:
  assumes "k < nat repeat"
    and "all_next k (ChatGPT_attempt jl cl (ChatGPT_prompt p ex si) v c) s"
    and "ChatGPT_request cl (ChatGPT_prompt p ex si)
           (state_after k (ChatGPT_attempt jl cl (ChatGPT_prompt p ex si) v c) s) = (resp, t)"
    and "jl (slice_to (strip resp) (rfind (strip resp) (CHR ''}'') + 1)) = Inr parsed"
    and "getitem parsed ''output'' = Inr out"
    and "v out (ChatGPT_prompt p ex si) = Inr True" and "c out (ChatGPT_prompt p ex si) = Inr r"
  shows "ChatGPT_safe_generate_response jl cl p ex si repeat fs v c s = (r, t) \<and>
         primary_calls t = primary_calls s + k + 1"
proof
  let ?B = "ChatGPT_attempt jl cl (ChatGPT_prompt p ex si) v c"
  have "?B (state_after k ?B s) = (Return r, t)"
    using assms(3-7) by (rule ChatGPT_attempt_Return)
  with assms(1,2) show "ChatGPT_safe_generate_response jl cl p ex si repeat fs v c s = (r, t)"
    unfolding ChatGPT_safe_generate_response_def by (rule for_range_stops)
  have "primary_calls (state_after k ?B s) = primary_calls s + k"
    by (rule state_after_count) (rule ChatGPT_attempt_count)
  with primary_calls_ChatGPT_request [of cl "ChatGPT_prompt p ex si" "state_after k ?B s"]
    assms(3)
  show "primary_calls t = primary_calls s + k + 1" by simp
qed

lemma GPT4_stops:
  assumes "k < nat repeat"
    and "all_next k (GPT4_attempt jl cl (GPT4_prompt p ex si) v c) s"
    and "GPT4_request cl (GPT4_prompt p ex si)
           (state_after k (GPT4_attempt jl cl (GPT4_prompt p ex si) v c) s) = (resp, t)"
    and "jl (slice_to (strip resp) (rfind (strip resp) (CHR ''}'') + 1)) = Inr parsed"
    and "getitem parsed ''output'' = Inr out"
    and "v out (GPT4_prompt p ex si) = Inr True" and "c out (GPT4_prompt p ex si) = Inr r"
  shows "GPT4_safe_generate_response jl cl p ex si repeat fs v c s = (r, t) \<and>
         primary_calls t = primary_calls s + k + 1"
proof
  let ?B = "GPT4_attempt jl cl (GPT4_prompt p ex si) v c"
  have "?B (state_after k ?B s) = (Return r, t)"
    using assms(3-7) by (rule GPT4_attempt_Return)
  with assms(1,2) show "GPT4_safe_generate_response jl cl p ex si repeat fs v c s = (r, t)"
    unfolding GPT4_safe_generate_response_def by (rule for_range_stops)
  have "primary_calls (state_after k ?B s) = primary_calls s + k"
    by (rule state_after_count) (rule GPT4_attempt_count)
  with primary_calls_GPT4_request [of cl "GPT4_prompt p ex si" "state_after k ?B s"]
    assms(3)
  show "primary_calls t = primary_calls s + k + 1" by simp
qed

lemma visible_Some_not_blank:
  assumes "visible r = Some t"
  shows "\<not> (\<forall>ch \<in> set t. is_space ch)"
proof -
  from assms obtain c where t: "t = strip c" and ne: "strip c \<noteq> []"
    by (cases r rule: visible.cases) (auto split: if_splits)
  from ne have "hd (strip c) \<in> set (strip c)" by simp
  moreover from ne have "\<not> is_space (hd (strip c))" by (rule strip_first_not_space)
  ultimately show ?thesis using t by blast
qed

lemma error_text_not_blank:
  "\<not> (\<forall>ch \<in> set ''ChatGPT ERROR''. is_space ch)"
  "\<not> (\<forall>ch \<in> set ''TOKEN LIMIT EXCEEDED''. is_space ch)"
  by (simp_all add: is_space_def)

lemma blank_response_empty:
  assumes "\<forall>ch \<in> set (fst (gpt5_nano_complete cl p m st s)). is_space ch"
  shows "fst (gpt5_nano_complete cl p m st s) = []"
proof (cases "visible (cl (length s) (primary_request p m))")
  case (Some t)
  then have "fst (gpt5_nano_complete cl p m st s) = t"
    by (simp add: gpt5_primary_success)
  with assms visible_Some_not_blank [OF Some] show ?thesis by simp
next
  case None
  show ?thesis
  proof (cases "cl (Suc (length s)) (fallback_request p m st)")
    case (Raises e)
    with None have "fst (gpt5_nano_complete cl p m st s) = ''ChatGPT ERROR''"
      by (simp add: gpt5_nano_complete_unfold)
    with assms error_text_not_blank(1) show ?thesis by simp
  next
    case (Content c)
    show ?thesis
    proof (cases "visible (Content c)")
      case N2: None
      with None Content show ?thesis
        by (simp add: gpt5_nano_complete_unfold del: visible.simps)
    next
      case S2: (Some t)
      with None Content have "fst (gpt5_nano_complete cl p m st s) = t"
        by (simp add: gpt5_nano_complete_unfold del: visible.simps)
      with assms visible_Some_not_blank [OF S2] show ?thesis by simp
    qed
  qed
qed

lemma blank_request_empty:
  "\<forall>ch \<in> set (fst (ChatGPT_request cl q s)). is_space ch \<Longrightarrow> fst (ChatGPT_request cl q s) = []"
  "\<forall>ch \<in> set (fst (GPT4_request cl q s)). is_space ch \<Longrightarrow> fst (GPT4_request cl q s) = []"
  unfolding ChatGPT_request_def GPT4_request_def by (rule blank_response_empty, assumption)+

lemma blank_GPT_request_empty:
  assumes "\<forall>ch \<in> set (fst (GPT_request cl q gp s)). is_space ch"
  shows "fst (GPT_request cl q gp s) = []"
proof -
  from GPT_request_cases [of gp cl q s] show ?thesis
  proof
    assume "\<exists>kvs. gp = PyDict kvs \<and>
      GPT_request cl q gp s =
        gpt5_nano_complete cl q
          (case map_of kvs ''max_tokens'' of None \<Rightarrow> PyInt 50 | Some v \<Rightarrow> v)
          (case map_of kvs ''stop'' of None \<Rightarrow> PyNone | Some v \<Rightarrow> v) s"
    then obtain mx stp where g: "GPT_request cl q gp s = gpt5_nano_complete cl q mx stp s"
      by blast
    with assms blank_response_empty [of cl q mx stp s] show ?thesis by simp
  next
    assume "(\<forall>kvs. gp \<noteq> PyDict kvs) \<and> GPT_request cl q gp s = (''TOKEN LIMIT EXCEEDED'', s)"
    with assms error_text_not_blank(2) show ?thesis by simp
  qed
qed

lemma gpt5_no_text_twice:
  assumes "gives_no_text (cl (length s) (primary_request q m))"
    and "cl (Suc (length s)) (fallback_request q m st) = Content c2"
    and "gives_no_text (Content c2)"
  shows "gpt5_nano_complete cl q m st s = ([], s @ [primary_request q m, fallback_request q m st])"
proof -
  from assms(1) have 1: "visible (cl (length s) (primary_request q m)) = None"
    by (simp add: visible_None_iff_no_text)
  from assms(3) have 2: "visible (Content c2) = None"
    by (simp only: visible_None_iff_no_text)
  from 1 2 assms(2) show ?thesis
    by (simp add: gpt5_nano_complete_unfold del: visible.simps)
qed

lemma gpt5_fallback_raises:
  assumes "gives_no_text (cl (length s) (primary_request p m))"
    and "cl (Suc (length s)) (fallback_request p m st) = Raises e2"
  shows "gpt5_nano_complete cl p m st s =
     (''ChatGPT ERROR'', s @ [primary_request p m, fallback_request p m st])"
proof -
  from assms(1) have "visible (cl (length s) (primary_request p m)) = None"
    by (simp add: visible_None_iff_no_text)
  with assms(2) show ?thesis by (simp add: gpt5_nano_complete_unfold)
qed

subsection \<open>The sample inputs\<close>

lemma sample_strip: "strip sample_json = sample_json"
  by code_simp

lemma sample_slice:
  "slice_to sample_json (rfind sample_json (CHR ''}'') + 1) = sample_json"
  by code_simp

lemma sample_decode:
  "json_loads_sample sample_json = Inr (PyDict [(''output'', PyStr ''ok'')])"
  by code_simp

lemma answers_json_primitive:
  "gpt5_nano_complete answers_json p m st s = (sample_json, s @ [primary_request p m])"
proof -
  have "visible (Content (Some sample_json)) = Some sample_json"
    by code_simp
  then show ?thesis
    by (simp add: gpt5_nano_complete_unfold answers_json_def)
qed

lemma sample_visible: "visible (Content (Some sample_json)) = Some sample_json"
  by code_simp

lemma sample_no_sentinel: "sample_json \<noteq> []" "sample_json \<notin> set sentinels"
  by code_simp+

lemma always_raises_primitive:
  "gpt5_nano_complete always_raises p m st s =
     (''ChatGPT ERROR'', s @ [primary_request p m, fallback_request p m st])"
  by (simp add: gpt5_nano_complete_unfold always_raises_def)

lemma error_text_slice:
  "slice_to (strip ''ChatGPT ERROR'') (rfind (strip ''ChatGPT ERROR'') (CHR ''}'') + 1) = []"
  by code_simp

lemma sample_decode_empty: "json_loads_sample [] = Inl JSONDecodeError"
  by code_simp

lemma error_text_strip: "strip ''ChatGPT ERROR'' = ''ChatGPT ERROR''"
  by code_simp

lemma ChatGPT_attempt_always_raises:
  "fst (ChatGPT_attempt json_loads_sample always_raises q v c s) = Next"
proof -
  have "\<forall>r. fst (ChatGPT_attempt json_loads_sample always_raises q v c s) \<noteq> Return r"
    unfolding ChatGPT_attempt_Return_iff
    by (simp add: ChatGPT_request_def always_raises_primitive error_text_slice sample_decode_empty)
  then show ?thesis by (simp add: step_not_Return)
qed

lemma GPT4_attempt_always_raises:
  "fst (GPT4_attempt json_loads_sample always_raises q v c s) = Next"
proof -
  have "\<forall>r. fst (GPT4_attempt json_loads_sample always_raises q v c s) \<noteq> Return r"
    unfolding GPT4_attempt_Return_iff
    by (simp add: GPT4_request_def always_raises_primitive error_text_slice sample_decode_empty)
  then show ?thesis by (simp add: step_not_Return)
qed

lemma safe_attempt_always_raises:
  "fst (safe_attempt always_raises p (PyDict []) v c s) = Next"
  by (simp add: safe_attempt_def GPT_request_def always_raises_primitive sentinels_def)

lemma OLD_attempt_reject_all:
  "fst (ChatGPT_OLD_attempt cl p reject_all c s) = Next"
  by (simp add: ChatGPT_OLD_attempt_def reject_all_def split: prod.splits)

subsection \<open>A client that always raises\<close>





lemma answers_json_GPT_request:
  "GPT_request answers_json p (PyDict []) s = (sample_json, s @ [primary_request p (PyInt 50)])"
  by (simp add: GPT_request_def answers_json_primitive)

lemma blank_invisible: "visible (Content (Some blank_text)) = None"
  by code_simp

lemma answers_blank_primitive:
  "gpt5_nano_complete answers_blank p m st s =
     ([], s @ [primary_request p m, fallback_request p m st])"
  by (simp add: gpt5_nano_complete_unfold answers_blank_def blank_invisible del: visible.simps)

lemma scenario_first_attempt:
  assumes "jl [] = Inl e0"
    and "cl 0 (primary_request q (PyInt 200)) = Content (Some [])"
    and "cl 1 (fallback_request q (PyInt 200) PyNone) = Content (Some [])"
  shows "ChatGPT_attempt jl cl q v c [] =
     (Next, [primary_request q (PyInt 200), fallback_request q (PyInt 200) PyNone])"
proof -
  from assms(2,3) have r: "ChatGPT_request cl q [] =
      ([], [primary_request q (PyInt 200), fallback_request q (PyInt 200) PyNone])"
    by (simp add: ChatGPT_request_def gpt5_nano_complete_unfold)
  with assms(1) have "fst (ChatGPT_attempt jl cl q v c []) = Next"
    unfolding ChatGPT_attempt_Next_iff by (simp add: empty_slice)
  with r show ?thesis by (simp add: prod_eq_iff ChatGPT_attempt_log)
qed

lemma scenario_second_request:
  assumes "cl 2 (primary_request q (PyInt 200)) = Content (Some sample_json)"
  shows "ChatGPT_request cl q [primary_request q (PyInt 200), fallback_request q (PyInt 200) PyNone]
     = (sample_json, [primary_request q (PyInt 200), fallback_request q (PyInt 200) PyNone,
                      primary_request q (PyInt 200)])"
proof -
  have "visible (cl (length [primary_request q (PyInt 200), fallback_request q (PyInt 200) PyNone])
      (primary_request q (PyInt 200))) = Some sample_json"
  proof -
    have "length [primary_request q (PyInt 200), fallback_request q (PyInt 200) PyNone] = 2"
      by simp
    with assms show ?thesis by (simp only: sample_visible)
  qed
  then show ?thesis
    unfolding ChatGPT_request_def by (simp add: gpt5_primary_success del: visible.simps)
qed

lemma blank_text_no_text: "gives_no_text (Content (Some blank_text))"
  by code_simp


lemma second_attempt_OLD:
  "all_next (Suc 0) (ChatGPT_OLD_attempt json_on_second_attempt ''p'' accept_nonempty keep) []"
  "ChatGPT_request json_on_second_attempt ''p''
     (state_after (Suc 0) (ChatGPT_OLD_attempt json_on_second_attempt ''p'' accept_nonempty keep) [])
   = (sample_json, [primary_request ''p'' (PyInt 200), fallback_request ''p'' (PyInt 200) PyNone,
                    primary_request ''p'' (PyInt 200)])"
  by code_simp+

lemma second_attempt_safe:
  "all_next (Suc 0) (safe_attempt json_on_second_attempt ''p'' (PyDict []) accept_nonempty keep) []"
  "GPT_request json_on_second_attempt ''p'' (PyDict [])
     (state_after (Suc 0)
        (safe_attempt json_on_second_attempt ''p'' (PyDict []) accept_nonempty keep) [])
   = (sample_json, [primary_request ''p'' (PyInt 50), fallback_request ''p'' (PyInt 50) PyNone,
                    primary_request ''p'' (PyInt 50)])"
  by code_simp+

lemma second_attempt_GPT4:
  "all_next (Suc 0) (GPT4_attempt json_loads_sample json_on_second_attempt
       (GPT4_prompt ''p'' ''x'' ''y'') accept_nonempty keep) []"
  "GPT4_request json_on_second_attempt (GPT4_prompt ''p'' ''x'' ''y'')
     (state_after (Suc 0) (GPT4_attempt json_loads_sample json_on_second_attempt
        (GPT4_prompt ''p'' ''x'' ''y'') accept_nonempty keep) [])
   = (sample_json,
      [primary_request (GPT4_prompt ''p'' ''x'' ''y'') (PyInt 200),
       fallback_request (GPT4_prompt ''p'' ''x'' ''y'') (PyInt 200) PyNone,
       primary_request (GPT4_prompt ''p'' ''x'' ''y'') (PyInt 200)])"
  by code_simp+

lemma second_attempt_ChatGPT:
  "all_next (Suc 0) (ChatGPT_attempt json_loads_sample json_on_second_attempt
       (ChatGPT_prompt ''p'' ''x'' ''y'') accept_nonempty keep) []"
  "ChatGPT_request json_on_second_attempt (ChatGPT_prompt ''p'' ''x'' ''y'')
     (state_after (Suc 0) (ChatGPT_attempt json_loads_sample json_on_second_attempt
        (ChatGPT_prompt ''p'' ''x'' ''y'') accept_nonempty keep) [])
   = (sample_json,
      [primary_request (ChatGPT_prompt ''p'' ''x'' ''y'') (PyInt 200),
       fallback_request (ChatGPT_prompt ''p'' ''x'' ''y'') (PyInt 200) PyNone,
       primary_request (ChatGPT_prompt ''p'' ''x'' ''y'') (PyInt 200)])"
  by code_simp+

lemma answers_json_requests:
  "ChatGPT_request answers_json q s = (sample_json, s @ [primary_request q (PyInt 200)])"
  "GPT4_request answers_json q s = (sample_json, s @ [primary_request q (PyInt 200)])"
  by (simp_all add: ChatGPT_request_def GPT4_request_def answers_json_primitive)

subsection \<open>The value returned when every attempt fails\<close>

text \<open>
  Claim C1, as stated, fails: \<^verbatim>\<open>ChatGPT_safe_generate_response\<close> (and
  \<^verbatim>\<open>GPT4_safe_generate_response\<close>) end with \<^verbatim>\<open>return False\<close> and
  never look at \<^verbatim>\<open>fail_safe_response\<close>. With a client that always raises,
  three attempts fail and the result is \<^verbatim>\<open>False\<close>, not the fail-safe value
  \<^verbatim>\<open>"error"\<close>.
\<close>

theorem exhausted_attempts_counterexample:
  "all_next 3 (ChatGPT_attempt json_loads_sample always_raises (ChatGPT_prompt ''p'' ''x'' ''y'')
       accept_nonempty keep) [] \<and>
   fst (ChatGPT_safe_generate_response json_loads_sample always_raises ''p'' ''x'' ''y'' 3
         (PyStr ''error'') accept_nonempty keep []) = PyBool False \<and>
   PyBool False \<noteq> PyStr ''error''"
proof -
  have a: "all_next 3 (ChatGPT_attempt json_loads_sample always_raises
       (ChatGPT_prompt ''p'' ''x'' ''y'') accept_nonempty keep) []"
    by (rule all_next_always) (rule ChatGPT_attempt_always_raises)
  from for_range_all_next [OF a, of "PyBool False"]
  have "fst (ChatGPT_safe_generate_response json_loads_sample always_raises ''p'' ''x'' ''y'' 3
         (PyStr ''error'') accept_nonempty keep []) = PyBool False"
    by (simp add: ChatGPT_safe_generate_response_def)
  with a show ?thesis by simp
qed

text \<open>
  Claim C1, amended. When each of the \<open>repeat\<close> attempts ends without a validated
  result, \<^verbatim>\<open>safe_generate_response\<close> and
  \<^verbatim>\<open>ChatGPT_safe_generate_response_OLD\<close> return the fail-safe value supplied by
  the caller, and \<^verbatim>\<open>GPT4_safe_generate_response\<close> and
  \<^verbatim>\<open>ChatGPT_safe_generate_response\<close> return \<^verbatim>\<open>False\<close>. An attempt
  ends without a validated result exactly when, for
  \<^verbatim>\<open>safe_generate_response\<close>, the response is one of the two error strings or
  the validator rejects it; for the other three, unless the candidate passes the
  validator and the cleanup function yields a result (for the two that decode the
  response, the candidate is the \<^verbatim>\<open>"output"\<close> field of the decoded text).
\<close>

theorem exhausted_attempts_return_value:
  "(all_next (nat repeat) (safe_attempt cl p gp v c) s \<longrightarrow>
      fst (safe_generate_response cl p gp repeat fs v c s) = Inr fs) \<and>
   (all_next (nat repeat) (ChatGPT_OLD_attempt cl p v c) s \<longrightarrow>
      fst (ChatGPT_safe_generate_response_OLD cl p repeat fs v c s) = fs) \<and>
   (all_next (nat repeat) (GPT4_attempt jl cl (GPT4_prompt p ex si) v c) s \<longrightarrow>
      fst (GPT4_safe_generate_response jl cl p ex si repeat fs v c s) = PyBool False) \<and>
   (all_next (nat repeat) (ChatGPT_attempt jl cl (ChatGPT_prompt p ex si) v c) s \<longrightarrow>
      fst (ChatGPT_safe_generate_response jl cl p ex si repeat fs v c s) = PyBool False) \<and>
   (fst (safe_attempt cl p gp v c t) = Next \<longleftrightarrow>
      fst (GPT_request cl p gp t) \<in> set sentinels \<or>
      v (PyStr (fst (GPT_request cl p gp t))) p = Inr False) \<and>
   (fst (ChatGPT_OLD_attempt cl p v c t) = Next \<longleftrightarrow>
      \<not> (v (PyStr (strip (fst (ChatGPT_request cl p t)))) p = Inr True \<and>
         (\<exists>r. c (PyStr (strip (fst (ChatGPT_request cl p t)))) p = Inr r))) \<and>
   (fst (GPT4_attempt jl cl q v c t) = Next \<longleftrightarrow>
      \<not> (\<exists>kvs out r.
           jl (slice_to (strip (fst (GPT4_request cl q t)))
                 (rfind (strip (fst (GPT4_request cl q t))) (CHR ''}'') + 1))
             = Inr (PyDict kvs) \<and>
           map_of kvs ''output'' = Some out \<and> v out q = Inr True \<and> c out q = Inr r)) \<and>
   (fst (ChatGPT_attempt jl cl q v c t) = Next \<longleftrightarrow>
      \<not> (\<exists>kvs out r.
           jl (slice_to (strip (fst (ChatGPT_request cl q t)))
                 (rfind (strip (fst (ChatGPT_request cl q t))) (CHR ''}'') + 1))
             = Inr (PyDict kvs) \<and>
           map_of kvs ''output'' = Some out \<and> v out q = Inr True \<and> c out q = Inr r))"
proof (intro conjI)
  show "all_next (nat repeat) (safe_attempt cl p gp v c) s \<longrightarrow>
      fst (safe_generate_response cl p gp repeat fs v c s) = Inr fs"
    by (simp add: safe_generate_response_def for_range_all_next)
  show "all_next (nat repeat) (ChatGPT_OLD_attempt cl p v c) s \<longrightarrow>
      fst (ChatGPT_safe_generate_response_OLD cl p repeat fs v c s) = fs"
    by (simp add: ChatGPT_safe_generate_response_OLD_def for_range_all_next)
  show "all_next (nat repeat) (GPT4_attempt jl cl (GPT4_prompt p ex si) v c) s \<longrightarrow>
      fst (GPT4_safe_generate_response jl cl p ex si repeat fs v c s) = PyBool False"
    by (simp add: GPT4_safe_generate_response_def for_range_all_next)
  show "all_next (nat repeat) (ChatGPT_attempt jl cl (ChatGPT_prompt p ex si) v c) s \<longrightarrow>
      fst (ChatGPT_safe_generate_response jl cl p ex si repeat fs v c s) = PyBool False"
    by (simp add: ChatGPT_safe_generate_response_def for_range_all_next)
  show "fst (safe_attempt cl p gp v c t) = Next \<longleftrightarrow>
      fst (GPT_request cl p gp t) \<in> set sentinels \<or>
      v (PyStr (fst (GPT_request cl p gp t))) p = Inr False"
    by (rule safe_attempt_Next_iff)
  show "fst (ChatGPT_OLD_attempt cl p v c t) = Next \<longleftrightarrow>
      \<not> (v (PyStr (strip (fst (ChatGPT_request cl p t)))) p = Inr True \<and>
         (\<exists>r. c (PyStr (strip (fst (ChatGPT_request cl p t)))) p = Inr r))"
    by (rule OLD_attempt_Next_iff)
  show "fst (GPT4_attempt jl cl q v c t) = Next \<longleftrightarrow>
      \<not> (\<exists>kvs out r.
           jl (slice_to (strip (fst (GPT4_request cl q t)))
                 (rfind (strip (fst (GPT4_request cl q t))) (CHR ''}'') + 1))
             = Inr (PyDict kvs) \<and>
           map_of kvs ''output'' = Some out \<and> v out q = Inr True \<and> c out q = Inr r)"
    by (rule GPT4_attempt_Next_iff)
  show "fst (ChatGPT_attempt jl cl q v c t) = Next \<longleftrightarrow>
      \<not> (\<exists>kvs out r.
           jl (slice_to (strip (fst (ChatGPT_request cl q t)))
                 (rfind (strip (fst (ChatGPT_request cl q t))) (CHR ''}'') + 1))
             = Inr (PyDict kvs) \<and>
           map_of kvs ''output'' = Some out \<and> v out q = Inr True \<and> c out q = Inr r)"
    by (rule ChatGPT_attempt_Next_iff)
qed

theorem exhausted_attempts_return_value_witness:
  "all_next (nat 3) (safe_attempt always_raises ''p'' (PyDict []) reject_all keep) [] \<and>
   fst (safe_generate_response always_raises ''p'' (PyDict []) 3 (PyStr ''error'') reject_all keep [])
     = Inr (PyStr ''error'') \<and>
   all_next (nat 3) (ChatGPT_OLD_attempt always_raises ''p'' reject_all keep) [] \<and>
   fst (ChatGPT_safe_generate_response_OLD always_raises ''p'' 3 (PyStr ''error'') reject_all keep [])
     = PyStr ''error'' \<and>
   all_next (nat 3) (GPT4_attempt json_loads_sample always_raises (GPT4_prompt ''p'' ''x'' ''y'')
       reject_all keep) [] \<and>
   fst (GPT4_safe_generate_response json_loads_sample always_raises ''p'' ''x'' ''y'' 3
         (PyStr ''error'') reject_all keep []) = PyBool False \<and>
   all_next (nat 3) (ChatGPT_attempt json_loads_sample always_raises (ChatGPT_prompt ''p'' ''x'' ''y'')
       reject_all keep) [] \<and>
   fst (ChatGPT_safe_generate_response json_loads_sample always_raises ''p'' ''x'' ''y'' 3
         (PyStr ''error'') reject_all keep []) = PyBool False"
proof -
  have a1: "all_next (nat 3) (safe_attempt always_raises ''p'' (PyDict []) reject_all keep) []"
    by (rule all_next_always) (rule safe_attempt_always_raises)
  have a2: "all_next (nat 3) (ChatGPT_OLD_attempt always_raises ''p'' reject_all keep) []"
    by (rule all_next_always) (rule OLD_attempt_reject_all)
  have a3: "all_next (nat 3) (GPT4_attempt json_loads_sample always_raises
       (GPT4_prompt ''p'' ''x'' ''y'') reject_all keep) []"
    by (rule all_next_always) (rule GPT4_attempt_always_raises)
  have a4: "all_next (nat 3) (ChatGPT_attempt json_loads_sample always_raises
       (ChatGPT_prompt ''p'' ''x'' ''y'') reject_all keep) []"
    by (rule all_next_always) (rule ChatGPT_attempt_always_raises)
  note w = exhausted_attempts_return_value [where repeat = 3 and cl = always_raises
      and p = "''p''" and gp = "PyDict []" and v = reject_all and c = keep and s = "[]"
      and fs = "PyStr ''error''" and jl = json_loads_sample and ex = "''x''" and si = "''y''"]
  from w a1 a2 a3 a4 show ?thesis by blast
qed

subsection \<open>Exceptions inside an attempt\<close>

text \<open>
  Claim C2, as stated, fails for \<^verbatim>\<open>safe_generate_response\<close>: its loop has no
  \<^verbatim>\<open>try\<close>, so an exception raised by the validator or by the cleanup
  function leaves the function at the first attempt that reaches them.
\<close>

theorem exception_propagates_counterexample:
  "safe_generate_response answers_json ''p'' (PyDict []) 3 (PyStr ''error'')
       raising_validator keep [] =
     (Inl ValueError, [primary_request ''p'' (PyInt 50)]) \<and>
   safe_generate_response answers_json ''p'' (PyDict []) 3 (PyStr ''error'')
       accept_nonempty raising_cleaner [] =
     (Inl ValueError, [primary_request ''p'' (PyInt 50)])"
proof -
  have n: "0 < nat 3" by simp
  have a: "safe_attempt answers_json ''p'' (PyDict []) raising_validator keep [] =
      (Return (Inl ValueError), [primary_request ''p'' (PyInt 50)])"
    using sample_no_sentinel
    by (simp add: safe_attempt_def answers_json_GPT_request raising_validator_def)
  have b: "safe_attempt answers_json ''p'' (PyDict []) accept_nonempty raising_cleaner [] =
      (Return (Inl ValueError), [primary_request ''p'' (PyInt 50)])"
    using sample_no_sentinel
    by (simp add: safe_attempt_def answers_json_GPT_request accept_nonempty_def
        raising_cleaner_def)
  have "safe_generate_response answers_json ''p'' (PyDict []) 3 (PyStr ''error'')
       raising_validator keep [] = (Inl ValueError, [primary_request ''p'' (PyInt 50)])"
    unfolding safe_generate_response_def using n a by (rule for_range_first_return)
  moreover have "safe_generate_response answers_json ''p'' (PyDict []) 3 (PyStr ''error'')
       accept_nonempty raising_cleaner [] = (Inl ValueError, [primary_request ''p'' (PyInt 50)])"
    unfolding safe_generate_response_def using n b by (rule for_range_first_return)
  ultimately show ?thesis by simp
qed

text \<open>
  Claim C2, amended. In \<^verbatim>\<open>GPT4_safe_generate_response\<close>,
  \<^verbatim>\<open>ChatGPT_safe_generate_response\<close> and
  \<^verbatim>\<open>ChatGPT_safe_generate_response_OLD\<close>, whose attempts run inside
  \<^verbatim>\<open>try\<close>, an exception raised by the decoding of the response, by the
  lookup of the \<^verbatim>\<open>"output"\<close> key, by the validator or by the cleanup
  function ends that attempt only: the attempt fails, one unit of the retry count is
  spent, and the loop goes on with the next attempt. An exception raised by the
  transport never leaves the primitive, which returns the string
  \<^verbatim>\<open>"ChatGPT ERROR"\<close> when both calls raise; in
  \<^verbatim>\<open>safe_generate_response\<close> an attempt with that response fails and the
  loop goes on. (These three functions return a value on every path; in
  \<^verbatim>\<open>safe_generate_response\<close> only the transport's exceptions are absorbed.)
\<close>

theorem exceptions_end_only_the_attempt:
  "((\<exists>e. jl (slice_to (strip (fst (ChatGPT_request cl q s)))
             (rfind (strip (fst (ChatGPT_request cl q s))) (CHR ''}'') + 1)) = Inl e) \<or>
    (\<exists>j out e. jl (slice_to (strip (fst (ChatGPT_request cl q s)))
             (rfind (strip (fst (ChatGPT_request cl q s))) (CHR ''}'') + 1)) = Inr j \<and>
       (getitem j ''output'' = Inl e \<or>
        getitem j ''output'' = Inr out \<and>
          (v out q = Inl e \<or> v out q = Inr True \<and> c out q = Inl e))) \<longrightarrow>
      ChatGPT_attempt jl cl q v c s = (Next, snd (ChatGPT_request cl q s)) \<and>
      for_range (Suc n) (ChatGPT_attempt jl cl q v c) a s =
        for_range n (ChatGPT_attempt jl cl q v c) a (snd (ChatGPT_request cl q s))) \<and>
   ((\<exists>e. jl (slice_to (strip (fst (GPT4_request cl q s)))
             (rfind (strip (fst (GPT4_request cl q s))) (CHR ''}'') + 1)) = Inl e) \<or>
    (\<exists>j out e. jl (slice_to (strip (fst (GPT4_request cl q s)))
             (rfind (strip (fst (GPT4_request cl q s))) (CHR ''}'') + 1)) = Inr j \<and>
       (getitem j ''output'' = Inl e \<or>
        getitem j ''output'' = Inr out \<and>
          (v out q = Inl e \<or> v out q = Inr True \<and> c out q = Inl e))) \<longrightarrow>
      GPT4_attempt jl cl q v c s = (Next, snd (GPT4_request cl q s)) \<and>
      for_range (Suc n) (GPT4_attempt jl cl q v c) a s =
        for_range n (GPT4_attempt jl cl q v c) a (snd (GPT4_request cl q s))) \<and>
   ((\<exists>e. v (PyStr (strip (fst (ChatGPT_request cl q s)))) q = Inl e) \<or>
    (v (PyStr (strip (fst (ChatGPT_request cl q s)))) q = Inr True \<and>
     (\<exists>e. c (PyStr (strip (fst (ChatGPT_request cl q s)))) q = Inl e)) \<longrightarrow>
      ChatGPT_OLD_attempt cl q v c s = (Next, snd (ChatGPT_request cl q s)) \<and>
      for_range (Suc n) (ChatGPT_OLD_attempt cl q v c) a s =
        for_range n (ChatGPT_OLD_attempt cl q v c) a (snd (ChatGPT_request cl q s))) \<and>
   ((\<exists>e. cl (length s) (primary_request q m) = Raises e) \<and>
    (\<exists>e. cl (Suc (length s)) (fallback_request q m st) = Raises e) \<longrightarrow>
      gpt5_nano_complete cl q m st s =
        (''ChatGPT ERROR'', s @ [primary_request q m, fallback_request q m st])) \<and>
   (get_default gp ''max_tokens'' (PyInt 50) = Inr mx \<and>
    get_default gp ''stop'' PyNone = Inr stp \<and>
    (\<exists>e. cl (length s) (primary_request q mx) = Raises e) \<and>
    (\<exists>e. cl (Suc (length s)) (fallback_request q mx stp) = Raises e) \<longrightarrow>
      safe_attempt cl q gp v c s =
        (Next, s @ [primary_request q mx, fallback_request q mx stp]) \<and>
      for_range (Suc n) (safe_attempt cl q gp v c) b s =
        for_range n (safe_attempt cl q gp v c) b
          (s @ [primary_request q mx, fallback_request q mx stp]))"
proof (intro conjI impI)
  assume h: "(\<exists>e. jl (slice_to (strip (fst (ChatGPT_request cl q s)))
             (rfind (strip (fst (ChatGPT_request cl q s))) (CHR ''}'') + 1)) = Inl e) \<or>
    (\<exists>j out e. jl (slice_to (strip (fst (ChatGPT_request cl q s)))
             (rfind (strip (fst (ChatGPT_request cl q s))) (CHR ''}'') + 1)) = Inr j \<and>
       (getitem j ''output'' = Inl e \<or>
        getitem j ''output'' = Inr out \<and>
          (v out q = Inl e \<or> v out q = Inr True \<and> c out q = Inl e)))"
  then have "fst (ChatGPT_attempt jl cl q v c s) = Next"
    unfolding ChatGPT_attempt_Next_iff by (auto simp: getitem_Inr_iff)
  then show x: "ChatGPT_attempt jl cl q v c s = (Next, snd (ChatGPT_request cl q s))"
    by (simp add: prod_eq_iff ChatGPT_attempt_log)
  show "for_range (Suc n) (ChatGPT_attempt jl cl q v c) a s =
        for_range n (ChatGPT_attempt jl cl q v c) a (snd (ChatGPT_request cl q s))"
    using x by (rule for_range_Next_state)
next
  assume h: "(\<exists>e. jl (slice_to (strip (fst (GPT4_request cl q s)))
             (rfind (strip (fst (GPT4_request cl q s))) (CHR ''}'') + 1)) = Inl e) \<or>
    (\<exists>j out e. jl (slice_to (strip (fst (GPT4_request cl q s)))
             (rfind (strip (fst (GPT4_request cl q s))) (CHR ''}'') + 1)) = Inr j \<and>
       (getitem j ''output'' = Inl e \<or>
        getitem j ''output'' = Inr out \<and>
          (v out q = Inl e \<or> v out q = Inr True \<and> c out q = Inl e)))"
  then have "fst (GPT4_attempt jl cl q v c s) = Next"
    unfolding GPT4_attempt_Next_iff by (auto simp: getitem_Inr_iff)
  then show x: "GPT4_attempt jl cl q v c s = (Next, snd (GPT4_request cl q s))"
    by (simp add: prod_eq_iff GPT4_attempt_log)
  show "for_range (Suc n) (GPT4_attempt jl cl q v c) a s =
        for_range n (GPT4_attempt jl cl q v c) a (snd (GPT4_request cl q s))"
    using x by (rule for_range_Next_state)
next
  assume h: "(\<exists>e. v (PyStr (strip (fst (ChatGPT_request cl q s)))) q = Inl e) \<or>
    (v (PyStr (strip (fst (ChatGPT_request cl q s)))) q = Inr True \<and>
     (\<exists>e. c (PyStr (strip (fst (ChatGPT_request cl q s)))) q = Inl e))"
  then have "fst (ChatGPT_OLD_attempt cl q v c s) = Next"
    unfolding OLD_attempt_Next_iff by auto
  then show x: "ChatGPT_OLD_attempt cl q v c s = (Next, snd (ChatGPT_request cl q s))"
    by (simp add: prod_eq_iff OLD_attempt_log)
  show "for_range (Suc n) (ChatGPT_OLD_attempt cl q v c) a s =
        for_range n (ChatGPT_OLD_attempt cl q v c) a (snd (ChatGPT_request cl q s))"
    using x by (rule for_range_Next_state)
next
  assume "(\<exists>e. cl (length s) (primary_request q m) = Raises e) \<and>
    (\<exists>e. cl (Suc (length s)) (fallback_request q m st) = Raises e)"
  then show "gpt5_nano_complete cl q m st s =
        (''ChatGPT ERROR'', s @ [primary_request q m, fallback_request q m st])"
    by (auto simp: gpt5_nano_complete_unfold)
next
  assume h: "get_default gp ''max_tokens'' (PyInt 50) = Inr mx \<and>
    get_default gp ''stop'' PyNone = Inr stp \<and>
    (\<exists>e. cl (length s) (primary_request q mx) = Raises e) \<and>
    (\<exists>e. cl (Suc (length s)) (fallback_request q mx stp) = Raises e)"
  then have "gpt5_nano_complete cl q mx stp s =
        (''ChatGPT ERROR'', s @ [primary_request q mx, fallback_request q mx stp])"
    by (auto simp: gpt5_nano_complete_unfold)
  with h have "GPT_request cl q gp s =
        (''ChatGPT ERROR'', s @ [primary_request q mx, fallback_request q mx stp])"
    by (simp add: GPT_request_dict)
  then show x: "safe_attempt cl q gp v c s =
        (Next, s @ [primary_request q mx, fallback_request q mx stp])"
    by (simp add: safe_attempt_def sentinels_def)
  show "for_range (Suc n) (safe_attempt cl q gp v c) b s =
        for_range n (safe_attempt cl q gp v c) b
          (s @ [primary_request q mx, fallback_request q mx stp])"
    using x by (rule for_range_Next_state)
qed

theorem exceptions_end_only_the_attempt_witness:
  "ChatGPT_attempt json_loads_sample answers_json ''q'' raising_validator keep [] =
     (Next, [primary_request ''q'' (PyInt 200)]) \<and>
   GPT4_attempt json_loads_sample answers_json ''q'' raising_validator keep [] =
     (Next, [primary_request ''q'' (PyInt 200)]) \<and>
   ChatGPT_OLD_attempt answers_json ''q'' raising_validator keep [] =
     (Next, [primary_request ''q'' (PyInt 200)]) \<and>
   ChatGPT_attempt json_loads_sample answers_json ''q'' accept_nonempty raising_cleaner [] =
     (Next, [primary_request ''q'' (PyInt 200)]) \<and>
   GPT4_attempt json_loads_sample answers_json ''q'' accept_nonempty raising_cleaner [] =
     (Next, [primary_request ''q'' (PyInt 200)]) \<and>
   ChatGPT_OLD_attempt answers_json ''q'' accept_nonempty raising_cleaner [] =
     (Next, [primary_request ''q'' (PyInt 200)]) \<and>
   ChatGPT_attempt json_loads_sample always_raises ''q'' accept_nonempty keep [] =
     (Next, [primary_request ''q'' (PyInt 200), fallback_request ''q'' (PyInt 200) PyNone]) \<and>
   GPT4_attempt json_loads_sample always_raises ''q'' accept_nonempty keep [] =
     (Next, [primary_request ''q'' (PyInt 200), fallback_request ''q'' (PyInt 200) PyNone]) \<and>
   gpt5_nano_complete always_raises ''q'' (PyInt 200) PyNone [] =
     (''ChatGPT ERROR'', [primary_request ''q'' (PyInt 200), fallback_request ''q'' (PyInt 200) PyNone]) \<and>
   safe_attempt always_raises ''q'' (PyDict []) accept_nonempty keep [] =
     (Next, [primary_request ''q'' (PyInt 50), fallback_request ''q'' (PyInt 50) PyNone])"
proof -
  have ra: "ChatGPT_request answers_json ''q'' [] = (sample_json, [primary_request ''q'' (PyInt 200)])"
    "GPT4_request answers_json ''q'' [] = (sample_json, [primary_request ''q'' (PyInt 200)])"
    by (simp_all add: ChatGPT_request_def GPT4_request_def answers_json_primitive)
  have rb: "ChatGPT_request always_raises ''q'' [] =
      (''ChatGPT ERROR'', [primary_request ''q'' (PyInt 200), fallback_request ''q'' (PyInt 200) PyNone])"
    "GPT4_request always_raises ''q'' [] =
      (''ChatGPT ERROR'', [primary_request ''q'' (PyInt 200), fallback_request ''q'' (PyInt 200) PyNone])"
    by (simp_all add: ChatGPT_request_def GPT4_request_def always_raises_primitive)
  have ok: "accept_nonempty (PyStr ''ok'') ''q'' = Inr True"
    "accept_nonempty (PyStr sample_json) ''q'' = Inr True"
    using sample_no_sentinel by (simp_all add: accept_nonempty_def)
  note w1 = exceptions_end_only_the_attempt [where jl = json_loads_sample and cl = answers_json
      and q = "''q''" and s = "[]" and v = raising_validator and c = keep
      and n = 0 and a = "PyBool False" and m = "PyInt 200"
      and st = PyNone and gp = "PyDict []" and mx = "PyInt 50" and stp = PyNone
      and b = "Inr (PyStr ''rest'')"]
  note w2 = exceptions_end_only_the_attempt [where jl = json_loads_sample and cl = answers_json
      and q = "''q''" and s = "[]" and v = accept_nonempty and c = raising_cleaner
      and n = 0 and a = "PyBool False" and m = "PyInt 200"
      and st = PyNone and gp = "PyDict []" and mx = "PyInt 50" and stp = PyNone
      and b = "Inr (PyStr ''rest'')"]
  note w3 = exceptions_end_only_the_attempt [where jl = json_loads_sample and cl = always_raises
      and q = "''q''" and s = "[]" and v = accept_nonempty and c = keep
      and n = 0 and a = "PyBool False" and m = "PyInt 200"
      and st = PyNone and gp = "PyDict []" and mx = "PyInt 50" and stp = PyNone
      and b = "Inr (PyStr ''rest'')"]
  from w1 have c1:
    "ChatGPT_attempt json_loads_sample answers_json ''q'' raising_validator keep [] =
       (Next, [primary_request ''q'' (PyInt 200)])"
    "GPT4_attempt json_loads_sample answers_json ''q'' raising_validator keep [] =
       (Next, [primary_request ''q'' (PyInt 200)])"
    "ChatGPT_OLD_attempt answers_json ''q'' raising_validator keep [] =
       (Next, [primary_request ''q'' (PyInt 200)])"
    by (simp_all add: ra sample_strip sample_slice sample_decode raising_validator_def)
  from w2 have c2:
    "ChatGPT_attempt json_loads_sample answers_json ''q'' accept_nonempty raising_cleaner [] =
       (Next, [primary_request ''q'' (PyInt 200)])"
    "GPT4_attempt json_loads_sample answers_json ''q'' accept_nonempty raising_cleaner [] =
       (Next, [primary_request ''q'' (PyInt 200)])"
    "ChatGPT_OLD_attempt answers_json ''q'' accept_nonempty raising_cleaner [] =
       (Next, [primary_request ''q'' (PyInt 200)])"
    by (simp_all add: ra sample_strip sample_slice sample_decode ok raising_cleaner_def)
  from w3 have c3:
    "ChatGPT_attempt json_loads_sample always_raises ''q'' accept_nonempty keep [] =
       (Next, [primary_request ''q'' (PyInt 200), fallback_request ''q'' (PyInt 200) PyNone])"
    "GPT4_attempt json_loads_sample always_raises ''q'' accept_nonempty keep [] =
       (Next, [primary_request ''q'' (PyInt 200), fallback_request ''q'' (PyInt 200) PyNone])"
    by (simp_all add: rb error_text_slice sample_decode_empty)
  from w3 have c4:
    "gpt5_nano_complete always_raises ''q'' (PyInt 200) PyNone [] =
       (''ChatGPT ERROR'', [primary_request ''q'' (PyInt 200), fallback_request ''q'' (PyInt 200) PyNone])"
    "safe_attempt always_raises ''q'' (PyDict []) accept_nonempty keep [] =
       (Next, [primary_request ''q'' (PyInt 50), fallback_request ''q'' (PyInt 50) PyNone])"
    by (simp_all add: always_raises_def)
  from c1 c2 c3 c4 show ?thesis by (intro conjI)
qed

subsection \<open>A transport that always fails\<close>




subsection \<open>Stopping at the first success\<close>

text \<open>
  Claim C4, as stated, fails for \<^verbatim>\<open>ChatGPT_safe_generate_response_OLD\<close>,
  \<^verbatim>\<open>ChatGPT_safe_generate_response\<close> and
  \<^verbatim>\<open>GPT4_safe_generate_response\<close>: the cleanup function is called inside
  \<^verbatim>\<open>try\<close>, so when the candidate of the first attempt passes the validator
  and the cleanup function raises, the handler passes and the loop goes on. With a
  client that always answers \<^verbatim>\<open>{"output": "ok"}\<close>, a validator that
  accepts it and a cleanup function that raises, the first of them makes three
  transport calls and returns the fail-safe value.
\<close>

theorem raising_cleanup_counterexample:
  "fst (ChatGPT_request answers_json ''p'' []) = sample_json \<and>
   accept_nonempty (PyStr (strip sample_json)) ''p'' = Inr True \<and>
   fst (ChatGPT_safe_generate_response_OLD answers_json ''p'' 3 (PyStr ''rest'')
         accept_nonempty raising_cleaner []) = PyStr ''rest'' \<and>
   primary_calls (snd (ChatGPT_safe_generate_response_OLD answers_json ''p'' 3 (PyStr ''rest'')
         accept_nonempty raising_cleaner [])) = 3"
  by code_simp

text \<open>
  Claim C4, amended. In every retry function the loop stops at the first attempt whose
  candidate passes the validator and whose cleanup call returns: when the first \<open>k\<close>
  attempts have gone on to the next iteration, with \<open>k\<close> less than
  \<^verbatim>\<open>repeat\<close>, and the candidate of the attempt that follows passes the
  validator and the cleanup function returns \<open>r\<close> on it, the function returns
  \<open>r\<close> with the log as that attempt leaves it, so no later attempt is made, after
  exactly \<open>k + 1\<close> transport calls; for \<open>k = 0\<close>, after exactly one. In
  \<^verbatim>\<open>safe_generate_response\<close> the response must differ from the two error
  strings, and passing the validator is enough: the function ends with the outcome of
  the cleanup call, a value or an exception. In the other three an attempt whose
  candidate passes the validator and whose cleanup call raises goes on to the next
  iteration.
\<close>

theorem loop_stops_at_first_success:
  "(k < nat repeat \<and>
    all_next k (safe_attempt cl p gp v c) s \<and>
    GPT_request cl p gp (state_after k (safe_attempt cl p gp v c) s) = (resp1, t1) \<and>
    resp1 \<notin> set sentinels \<and>
    v (PyStr resp1) p = Inr True \<longrightarrow>
      safe_generate_response cl p gp repeat fs v c s = (c (PyStr resp1) p, t1) \<and>
      primary_calls t1 = primary_calls s + k + 1) \<and>
   (k < nat repeat \<and>
    all_next k (ChatGPT_OLD_attempt cl p v c) s \<and>
    ChatGPT_request cl p (state_after k (ChatGPT_OLD_attempt cl p v c) s) = (resp2, t2) \<and>
    v (PyStr (strip resp2)) p = Inr True \<and>
    c (PyStr (strip resp2)) p = Inr r2 \<longrightarrow>
      ChatGPT_safe_generate_response_OLD cl p repeat fs v c s = (r2, t2) \<and>
      primary_calls t2 = primary_calls s + k + 1) \<and>
   (k < nat repeat \<and>
    all_next k (GPT4_attempt jl cl (GPT4_prompt p ex si) v c) s \<and>
    GPT4_request cl (GPT4_prompt p ex si)
      (state_after k (GPT4_attempt jl cl (GPT4_prompt p ex si) v c) s) = (resp3, t3) \<and>
    jl (slice_to (strip resp3) (rfind (strip resp3) (CHR ''}'') + 1)) = Inr parsed3 \<and>
    getitem parsed3 ''output'' = Inr out3 \<and>
    v out3 (GPT4_prompt p ex si) = Inr True \<and>
    c out3 (GPT4_prompt p ex si) = Inr r3 \<longrightarrow>
      GPT4_safe_generate_response jl cl p ex si repeat fs v c s = (r3, t3) \<and>
      primary_calls t3 = primary_calls s + k + 1) \<and>
   (k < nat repeat \<and>
    all_next k (ChatGPT_attempt jl cl (ChatGPT_prompt p ex si) v c) s \<and>
    ChatGPT_request cl (ChatGPT_prompt p ex si)
      (state_after k (ChatGPT_attempt jl cl (ChatGPT_prompt p ex si) v c) s) = (resp4, t4) \<and>
    jl (slice_to (strip resp4) (rfind (strip resp4) (CHR ''}'') + 1)) = Inr parsed4 \<and>
    getitem parsed4 ''output'' = Inr out4 \<and>
    v out4 (ChatGPT_prompt p ex si) = Inr True \<and>
    c out4 (ChatGPT_prompt p ex si) = Inr r4 \<longrightarrow>
      ChatGPT_safe_generate_response jl cl p ex si repeat fs v c s = (r4, t4) \<and>
      primary_calls t4 = primary_calls s + k + 1) \<and>
   (ChatGPT_request cl p u = (resp5, t5) \<and>
    v (PyStr (strip resp5)) p = Inr True \<and>
    c (PyStr (strip resp5)) p = Inl e5 \<longrightarrow>
      ChatGPT_OLD_attempt cl p v c u = (Next, t5)) \<and>
   (GPT4_request cl q u = (resp6, t6) \<and>
    jl (slice_to (strip resp6) (rfind (strip resp6) (CHR ''}'') + 1)) = Inr parsed6 \<and>
    getitem parsed6 ''output'' = Inr out6 \<and>
    v out6 q = Inr True \<and>
    c out6 q = Inl e6 \<longrightarrow>
      GPT4_attempt jl cl q v c u = (Next, t6)) \<and>
   (ChatGPT_request cl q u = (resp7, t7) \<and>
    jl (slice_to (strip resp7) (rfind (strip resp7) (CHR ''}'') + 1)) = Inr parsed7 \<and>
    getitem parsed7 ''output'' = Inr out7 \<and>
    v out7 q = Inr True \<and>
    c out7 q = Inl e7 \<longrightarrow>
      ChatGPT_attempt jl cl q v c u = (Next, t7))"
proof (intro conjI impI)
  assume "k < nat repeat \<and>
    all_next k (safe_attempt cl p gp v c) s \<and>
    GPT_request cl p gp (state_after k (safe_attempt cl p gp v c) s) = (resp1, t1) \<and>
    resp1 \<notin> set sentinels \<and>
    v (PyStr resp1) p = Inr True"
  then have "safe_generate_response cl p gp repeat fs v c s = (c (PyStr resp1) p, t1) \<and>
      primary_calls t1 = primary_calls s + k + 1"
    by (intro safe_stops) simp_all
  then show "safe_generate_response cl p gp repeat fs v c s = (c (PyStr resp1) p, t1)"
    and "primary_calls t1 = primary_calls s + k + 1" by simp_all
next
  assume "k < nat repeat \<and>
    all_next k (ChatGPT_OLD_attempt cl p v c) s \<and>
    ChatGPT_request cl p (state_after k (ChatGPT_OLD_attempt cl p v c) s) = (resp2, t2) \<and>
    v (PyStr (strip resp2)) p = Inr True \<and>
    c (PyStr (strip resp2)) p = Inr r2"
  then have "ChatGPT_safe_generate_response_OLD cl p repeat fs v c s = (r2, t2) \<and>
      primary_calls t2 = primary_calls s + k + 1"
    by (intro OLD_stops [where resp = resp2]) simp_all
  then show "ChatGPT_safe_generate_response_OLD cl p repeat fs v c s = (r2, t2)"
    and "primary_calls t2 = primary_calls s + k + 1" by simp_all
next
  assume "k < nat repeat \<and>
    all_next k (GPT4_attempt jl cl (GPT4_prompt p ex si) v c) s \<and>
    GPT4_request cl (GPT4_prompt p ex si)
      (state_after k (GPT4_attempt jl cl (GPT4_prompt p ex si) v c) s) = (resp3, t3) \<and>
    jl (slice_to (strip resp3) (rfind (strip resp3) (CHR ''}'') + 1)) = Inr parsed3 \<and>
    getitem parsed3 ''output'' = Inr out3 \<and>
    v out3 (GPT4_prompt p ex si) = Inr True \<and>
    c out3 (GPT4_prompt p ex si) = Inr r3"
  then have "GPT4_safe_generate_response jl cl p ex si repeat fs v c s = (r3, t3) \<and>
      primary_calls t3 = primary_calls s + k + 1"
    by (intro GPT4_stops [where resp = resp3 and parsed = parsed3 and out = out3]) simp_all
  then show "GPT4_safe_generate_response jl cl p ex si repeat fs v c s = (r3, t3)"
    and "primary_calls t3 = primary_calls s + k + 1" by simp_all
next
  assume "k < nat repeat \<and>
    all_next k (ChatGPT_attempt jl cl (ChatGPT_prompt p ex si) v c) s \<and>
    ChatGPT_request cl (ChatGPT_prompt p ex si)
      (state_after k (ChatGPT_attempt jl cl (ChatGPT_prompt p ex si) v c) s) = (resp4, t4) \<and>
    jl (slice_to (strip resp4) (rfind (strip resp4) (CHR ''}'') + 1)) = Inr parsed4 \<and>
    getitem parsed4 ''output'' = Inr out4 \<and>
    v out4 (ChatGPT_prompt p ex si) = Inr True \<and>
    c out4 (ChatGPT_prompt p ex si) = Inr r4"
  then have "ChatGPT_safe_generate_response jl cl p ex si repeat fs v c s = (r4, t4) \<and>
      primary_calls t4 = primary_calls s + k + 1"
    by (intro ChatGPT_stops [where resp = resp4 and parsed = parsed4 and out = out4]) simp_all
  then show "ChatGPT_safe_generate_response jl cl p ex si repeat fs v c s = (r4, t4)"
    and "primary_calls t4 = primary_calls s + k + 1" by simp_all
next
  assume "ChatGPT_request cl p u = (resp5, t5) \<and>
    v (PyStr (strip resp5)) p = Inr True \<and>
    c (PyStr (strip resp5)) p = Inl e5"
  then show "ChatGPT_OLD_attempt cl p v c u = (Next, t5)"
    by (intro OLD_attempt_cleanup_raises [where resp = resp5 and e = e5]) simp_all
next
  assume "GPT4_request cl q u = (resp6, t6) \<and>
    jl (slice_to (strip resp6) (rfind (strip resp6) (CHR ''}'') + 1)) = Inr parsed6 \<and>
    getitem parsed6 ''output'' = Inr out6 \<and>
    v out6 q = Inr True \<and>
    c out6 q = Inl e6"
  then show "GPT4_attempt jl cl q v c u = (Next, t6)"
    by (intro GPT4_attempt_cleanup_raises [where resp = resp6 and parsed = parsed6
          and out = out6 and e = e6]) simp_all
next
  assume "ChatGPT_request cl q u = (resp7, t7) \<and>
    jl (slice_to (strip resp7) (rfind (strip resp7) (CHR ''}'') + 1)) = Inr parsed7 \<and>
    getitem parsed7 ''output'' = Inr out7 \<and>
    v out7 q = Inr True \<and>
    c out7 q = Inl e7"
  then show "ChatGPT_attempt jl cl q v c u = (Next, t7)"
    by (intro ChatGPT_attempt_cleanup_raises [where resp = resp7 and parsed = parsed7
          and out = out7 and e = e7]) simp_all
qed

theorem loop_stops_at_first_success_witness:
  "safe_generate_response answers_json ''p'' (PyDict []) 3 (PyStr ''rest'') accept_nonempty keep []
     = (Inr (PyStr sample_json), [primary_request ''p'' (PyInt 50)]) \<and>
   ChatGPT_safe_generate_response_OLD answers_json ''p'' 3 (PyStr ''rest'') accept_nonempty keep []
     = (PyStr sample_json, [primary_request ''p'' (PyInt 200)]) \<and>
   GPT4_safe_generate_response json_loads_sample answers_json ''p'' ''x'' ''y'' 3 (PyStr ''rest'')
       accept_nonempty keep []
     = (PyStr ''ok'', [primary_request (GPT4_prompt ''p'' ''x'' ''y'') (PyInt 200)]) \<and>
   ChatGPT_safe_generate_response json_loads_sample answers_json ''p'' ''x'' ''y'' 3 (PyStr ''rest'')
       accept_nonempty keep []
     = (PyStr ''ok'', [primary_request (ChatGPT_prompt ''p'' ''x'' ''y'') (PyInt 200)]) \<and>
   all_next (Suc 0) (safe_attempt json_on_second_attempt ''p'' (PyDict []) accept_nonempty keep) [] \<and>
   safe_generate_response json_on_second_attempt ''p'' (PyDict []) 3 (PyStr ''rest'')
       accept_nonempty keep []
     = (Inr (PyStr sample_json),
        [primary_request ''p'' (PyInt 50), fallback_request ''p'' (PyInt 50) PyNone,
         primary_request ''p'' (PyInt 50)]) \<and>
   primary_calls [primary_request ''p'' (PyInt 50), fallback_request ''p'' (PyInt 50) PyNone,
         primary_request ''p'' (PyInt 50)] = 2 \<and>
   all_next (Suc 0) (ChatGPT_OLD_attempt json_on_second_attempt ''p'' accept_nonempty keep) [] \<and>
   ChatGPT_safe_generate_response_OLD json_on_second_attempt ''p'' 3 (PyStr ''rest'')
       accept_nonempty keep []
     = (PyStr sample_json,
        [primary_request ''p'' (PyInt 200), fallback_request ''p'' (PyInt 200) PyNone,
         primary_request ''p'' (PyInt 200)]) \<and>
   primary_calls [primary_request ''p'' (PyInt 200), fallback_request ''p'' (PyInt 200) PyNone,
         primary_request ''p'' (PyInt 200)] = 2 \<and>
   all_next (Suc 0) (GPT4_attempt json_loads_sample json_on_second_attempt
       (GPT4_prompt ''p'' ''x'' ''y'') accept_nonempty keep) [] \<and>
   GPT4_safe_generate_response json_loads_sample json_on_second_attempt ''p'' ''x'' ''y'' 3
       (PyStr ''rest'') accept_nonempty keep []
     = (PyStr ''ok'',
        [primary_request (GPT4_prompt ''p'' ''x'' ''y'') (PyInt 200),
         fallback_request (GPT4_prompt ''p'' ''x'' ''y'') (PyInt 200) PyNone,
         primary_request (GPT4_prompt ''p'' ''x'' ''y'') (PyInt 200)]) \<and>
   primary_calls [primary_request (GPT4_prompt ''p'' ''x'' ''y'') (PyInt 200),
         fallback_request (GPT4_prompt ''p'' ''x'' ''y'') (PyInt 200) PyNone,
         primary_request (GPT4_prompt ''p'' ''x'' ''y'') (PyInt 200)] = 2 \<and>
   all_next (Suc 0) (ChatGPT_attempt json_loads_sample json_on_second_attempt
       (ChatGPT_prompt ''p'' ''x'' ''y'') accept_nonempty keep) [] \<and>
   ChatGPT_safe_generate_response json_loads_sample json_on_second_attempt ''p'' ''x'' ''y'' 3
       (PyStr ''rest'') accept_nonempty keep []
     = (PyStr ''ok'',
        [primary_request (ChatGPT_prompt ''p'' ''x'' ''y'') (PyInt 200),
         fallback_request (ChatGPT_prompt ''p'' ''x'' ''y'') (PyInt 200) PyNone,
         primary_request (ChatGPT_prompt ''p'' ''x'' ''y'') (PyInt 200)]) \<and>
   primary_calls [primary_request (ChatGPT_prompt ''p'' ''x'' ''y'') (PyInt 200),
         fallback_request (ChatGPT_prompt ''p'' ''x'' ''y'') (PyInt 200) PyNone,
         primary_request (ChatGPT_prompt ''p'' ''x'' ''y'') (PyInt 200)] = 2 \<and>
   ChatGPT_OLD_attempt answers_json ''p'' accept_nonempty raising_cleaner []
     = (Next, [primary_request ''p'' (PyInt 200)]) \<and>
   GPT4_attempt json_loads_sample answers_json ''q'' accept_nonempty raising_cleaner []
     = (Next, [primary_request ''q'' (PyInt 200)]) \<and>
   ChatGPT_attempt json_loads_sample answers_json ''q'' accept_nonempty raising_cleaner []
     = (Next, [primary_request ''q'' (PyInt 200)])"
proof -
  have v: "accept_nonempty (PyStr sample_json) x = Inr True"
    "accept_nonempty (PyStr ''ok'') x = Inr True" for x
    using sample_no_sentinel by (simp_all add: accept_nonempty_def)
  note facts = v sample_no_sentinel sample_strip sample_slice sample_decode keep_def
    raising_cleaner_def answers_json_requests answers_json_GPT_request
  note inst = loop_stops_at_first_success [where repeat = 3 and p = "''p''" and gp = "PyDict []"
      and fs = "PyStr ''rest''" and v = accept_nonempty and s = "[]" and jl = json_loads_sample
      and ex = "''x''" and si = "''y''" and q = "''q''" and u = "[]"
      and ?resp1.0 = sample_json and ?resp2.0 = sample_json and ?r2.0 = "PyStr sample_json"
      and ?resp3.0 = sample_json and ?parsed3.0 = "PyDict [(''output'', PyStr ''ok'')]"
      and ?out3.0 = "PyStr ''ok''" and ?r3.0 = "PyStr ''ok''"
      and ?resp4.0 = sample_json and ?parsed4.0 = "PyDict [(''output'', PyStr ''ok'')]"
      and ?out4.0 = "PyStr ''ok''" and ?r4.0 = "PyStr ''ok''"
      and ?resp5.0 = sample_json and ?t5.0 = "[primary_request ''p'' (PyInt 200)]"
      and ?e5.0 = ValueError
      and ?resp6.0 = sample_json and ?t6.0 = "[primary_request ''q'' (PyInt 200)]"
      and ?parsed6.0 = "PyDict [(''output'', PyStr ''ok'')]" and ?out6.0 = "PyStr ''ok''"
      and ?e6.0 = ValueError
      and ?resp7.0 = sample_json and ?t7.0 = "[primary_request ''q'' (PyInt 200)]"
      and ?parsed7.0 = "PyDict [(''output'', PyStr ''ok'')]" and ?out7.0 = "PyStr ''ok''"
      and ?e7.0 = ValueError]
  from inst [where k = 0 and cl = answers_json and c = keep
      and ?t1.0 = "[primary_request ''p'' (PyInt 50)]"
      and ?t2.0 = "[primary_request ''p'' (PyInt 200)]"
      and ?t3.0 = "[primary_request (GPT4_prompt ''p'' ''x'' ''y'') (PyInt 200)]"
      and ?t4.0 = "[primary_request (ChatGPT_prompt ''p'' ''x'' ''y'') (PyInt 200)]"]
  have a1: "safe_generate_response answers_json ''p'' (PyDict []) 3 (PyStr ''rest'')
        accept_nonempty keep []
      = (Inr (PyStr sample_json), [primary_request ''p'' (PyInt 50)])"
    and a2: "ChatGPT_safe_generate_response_OLD answers_json ''p'' 3 (PyStr ''rest'')
        accept_nonempty keep []
      = (PyStr sample_json, [primary_request ''p'' (PyInt 200)])"
    and a3: "GPT4_safe_generate_response json_loads_sample answers_json ''p'' ''x'' ''y'' 3
        (PyStr ''rest'') accept_nonempty keep []
      = (PyStr ''ok'', [primary_request (GPT4_prompt ''p'' ''x'' ''y'') (PyInt 200)])"
    and a4: "ChatGPT_safe_generate_response json_loads_sample answers_json ''p'' ''x'' ''y'' 3
        (PyStr ''rest'') accept_nonempty keep []
      = (PyStr ''ok'', [primary_request (ChatGPT_prompt ''p'' ''x'' ''y'') (PyInt 200)])"
    by (simp_all add: facts)
  from inst [where k = "Suc 0" and cl = json_on_second_attempt and c = keep
      and ?t1.0 = "[primary_request ''p'' (PyInt 50), fallback_request ''p'' (PyInt 50) PyNone,
         primary_request ''p'' (PyInt 50)]"
      and ?t2.0 = "[primary_request ''p'' (PyInt 200), fallback_request ''p'' (PyInt 200) PyNone,
         primary_request ''p'' (PyInt 200)]"
      and ?t3.0 = "[primary_request (GPT4_prompt ''p'' ''x'' ''y'') (PyInt 200),
         fallback_request (GPT4_prompt ''p'' ''x'' ''y'') (PyInt 200) PyNone,
         primary_request (GPT4_prompt ''p'' ''x'' ''y'') (PyInt 200)]"
      and ?t4.0 = "[primary_request (ChatGPT_prompt ''p'' ''x'' ''y'') (PyInt 200),
         fallback_request (ChatGPT_prompt ''p'' ''x'' ''y'') (PyInt 200) PyNone,
         primary_request (ChatGPT_prompt ''p'' ''x'' ''y'') (PyInt 200)]"]
  have b1: "safe_generate_response json_on_second_attempt ''p'' (PyDict []) 3 (PyStr ''rest'')
        accept_nonempty keep []
      = (Inr (PyStr sample_json),
         [primary_request ''p'' (PyInt 50), fallback_request ''p'' (PyInt 50) PyNone,
          primary_request ''p'' (PyInt 50)])"
    and b2: "ChatGPT_safe_generate_response_OLD json_on_second_attempt ''p'' 3 (PyStr ''rest'')
        accept_nonempty keep []
      = (PyStr sample_json,
         [primary_request ''p'' (PyInt 200), fallback_request ''p'' (PyInt 200) PyNone,
          primary_request ''p'' (PyInt 200)])"
    and b3: "GPT4_safe_generate_response json_loads_sample json_on_second_attempt ''p'' ''x'' ''y'' 3
        (PyStr ''rest'') accept_nonempty keep []
      = (PyStr ''ok'',
         [primary_request (GPT4_prompt ''p'' ''x'' ''y'') (PyInt 200),
          fallback_request (GPT4_prompt ''p'' ''x'' ''y'') (PyInt 200) PyNone,
          primary_request (GPT4_prompt ''p'' ''x'' ''y'') (PyInt 200)])"
    and b4: "ChatGPT_safe_generate_response json_loads_sample json_on_second_attempt
        ''p'' ''x'' ''y'' 3 (PyStr ''rest'') accept_nonempty keep []
      = (PyStr ''ok'',
         [primary_request (ChatGPT_prompt ''p'' ''x'' ''y'') (PyInt 200),
          fallback_request (ChatGPT_prompt ''p'' ''x'' ''y'') (PyInt 200) PyNone,
          primary_request (ChatGPT_prompt ''p'' ''x'' ''y'') (PyInt 200)])"
    by (simp_all add: facts second_attempt_safe second_attempt_OLD second_attempt_GPT4
        second_attempt_ChatGPT del: all_next.simps state_after.simps)
  have c1: "primary_calls [primary_request ''p'' (PyInt 50),
          fallback_request ''p'' (PyInt 50) PyNone, primary_request ''p'' (PyInt 50)] = 2"
    and c2: "primary_calls [primary_request ''p'' (PyInt 200),
          fallback_request ''p'' (PyInt 200) PyNone, primary_request ''p'' (PyInt 200)] = 2"
    and c3: "primary_calls [primary_request (GPT4_prompt ''p'' ''x'' ''y'') (PyInt 200),
          fallback_request (GPT4_prompt ''p'' ''x'' ''y'') (PyInt 200) PyNone,
          primary_request (GPT4_prompt ''p'' ''x'' ''y'') (PyInt 200)] = 2"
    and c4: "primary_calls [primary_request (ChatGPT_prompt ''p'' ''x'' ''y'') (PyInt 200),
          fallback_request (ChatGPT_prompt ''p'' ''x'' ''y'') (PyInt 200) PyNone,
          primary_request (ChatGPT_prompt ''p'' ''x'' ''y'') (PyInt 200)] = 2"
    by (simp_all add: primary_calls_def primary_request_def fallback_request_def)
  from inst [where k = 0 and cl = answers_json and c = raising_cleaner]
  have d1: "ChatGPT_OLD_attempt answers_json ''p'' accept_nonempty raising_cleaner []
      = (Next, [primary_request ''p'' (PyInt 200)])"
    and d2: "GPT4_attempt json_loads_sample answers_json ''q'' accept_nonempty raising_cleaner []
      = (Next, [primary_request ''q'' (PyInt 200)])"
    and d3: "ChatGPT_attempt json_loads_sample answers_json ''q'' accept_nonempty raising_cleaner []
      = (Next, [primary_request ''q'' (PyInt 200)])"
    by (simp_all add: facts)
  from a1 a2 a3 a4 b1 c1 b2 c2 b3 c3 b4 c4 d1 d2 d3
    second_attempt_safe(1) second_attempt_OLD(1) second_attempt_GPT4(1) second_attempt_ChatGPT(1)
  show ?thesis by (intro conjI)
qed

subsection \<open>The fallback inside one attempt\<close>



subsection \<open>The scenario of the specification\<close>

text \<open>
  Claim C6, as stated, fails. \<^verbatim>\<open>ChatGPT_safe_generate_response\<close> itself takes
  the \<^verbatim>\<open>"output"\<close> field out of the decoded response, so the validator and the
  cleanup function receive the string \<^verbatim>\<open>"ok"\<close>. A cleanup function that
  extracts the \<^verbatim>\<open>"output"\<close> field from its candidate raises on that string;
  the handler swallows the exception, the second attempt fails like the first, the third
  one gets an empty response, and the result is \<^verbatim>\<open>False\<close> after three runs of
  the primitive. The client of the scenario answers the empty string to every call but
  the third, which is the first call of the second attempt (the first attempt makes two
  calls, since an empty first answer leads to the fallback).
\<close>

theorem scenario_with_extracting_cleanup_counterexample:
  "fst (ChatGPT_safe_generate_response json_loads_sample json_on_second_attempt ''p'' ''x'' ''y'' 3
         (PyStr ''error'') accept_nonempty extract_output []) = PyBool False \<and>
   PyBool False \<noteq> PyStr ''ok'' \<and>
   primary_calls (snd (ChatGPT_safe_generate_response json_loads_sample json_on_second_attempt
         ''p'' ''x'' ''y'' 3 (PyStr ''error'') accept_nonempty extract_output [])) = 3"
  by code_simp

text \<open>
  Claim C6, amended. With \<open>repeat = 3\<close>, a transport that answers
  \<^verbatim>\<open>{"output": "ok"}\<close> at the second attempt and the empty string at the
  first, a validator that accepts any non-empty string and a cleanup function that
  returns its candidate unchanged, \<^verbatim>\<open>ChatGPT_safe_generate_response\<close> returns
  \<^verbatim>\<open>"ok"\<close> after exactly two runs of the primitive (three requests: both
  models at the first attempt, the first model at the second). What is assumed of
  \<^verbatim>\<open>json.loads\<close> is that it raises on the empty text and decodes the answer
  to the dict it denotes.
\<close>

theorem scenario_returns_ok_after_two_calls:
  assumes "jl [] = Inl e0"
    and "jl sample_json = Inr (PyDict [(''output'', PyStr ''ok'')])"
    and "cl 0 (primary_request (ChatGPT_prompt p ex si) (PyInt 200)) = Content (Some [])"
    and "cl 1 (fallback_request (ChatGPT_prompt p ex si) (PyInt 200) PyNone) = Content (Some [])"
    and "cl 2 (primary_request (ChatGPT_prompt p ex si) (PyInt 200)) = Content (Some sample_json)"
  shows "fst (ChatGPT_safe_generate_response jl cl p ex si 3 fs accept_nonempty keep [])
           = PyStr ''ok'' \<and>
         snd (ChatGPT_safe_generate_response jl cl p ex si 3 fs accept_nonempty keep [])
           = [primary_request (ChatGPT_prompt p ex si) (PyInt 200),
              fallback_request (ChatGPT_prompt p ex si) (PyInt 200) PyNone,
              primary_request (ChatGPT_prompt p ex si) (PyInt 200)] \<and>
         primary_calls (snd (ChatGPT_safe_generate_response jl cl p ex si 3 fs
           accept_nonempty keep [])) = 2"
proof -
  let ?q = "ChatGPT_prompt p ex si"
  let ?s1 = "[primary_request ?q (PyInt 200), fallback_request ?q (PyInt 200) PyNone]"
  let ?s2 = "[primary_request ?q (PyInt 200), fallback_request ?q (PyInt 200) PyNone,
              primary_request ?q (PyInt 200)]"
  have a1: "ChatGPT_attempt jl cl ?q accept_nonempty keep [] = (Next, ?s1)"
    using assms(1,3,4) by (rule scenario_first_attempt)
  have r2: "ChatGPT_request cl ?q ?s1 = (sample_json, ?s2)"
    using assms(5) by (rule scenario_second_request)
  have "fst (ChatGPT_attempt jl cl ?q accept_nonempty keep ?s1) = Return (PyStr ''ok'')"
    unfolding ChatGPT_attempt_Return_iff
    by (simp add: r2 sample_strip sample_slice assms(2) accept_nonempty_def keep_def)
  with r2 have a2: "ChatGPT_attempt jl cl ?q accept_nonempty keep ?s1 = (Return (PyStr ''ok''), ?s2)"
    by (simp add: prod_eq_iff ChatGPT_attempt_log)
  have n: "nat 3 = Suc (Suc (Suc 0))" by simp
  have "ChatGPT_safe_generate_response jl cl p ex si 3 fs accept_nonempty keep [] =
      (PyStr ''ok'', ?s2)"
    unfolding ChatGPT_safe_generate_response_def n by (simp add: a1 a2)
  then show ?thesis
    by (simp add: primary_calls_def primary_request_def fallback_request_def)
qed

theorem scenario_returns_ok_after_two_calls_witness:
  "json_loads_sample [] = Inl JSONDecodeError \<and>
   json_loads_sample sample_json = Inr (PyDict [(''output'', PyStr ''ok'')]) \<and>
   json_on_second_attempt 0 (primary_request (ChatGPT_prompt ''p'' ''x'' ''y'') (PyInt 200))
     = Content (Some []) \<and>
   json_on_second_attempt 1 (fallback_request (ChatGPT_prompt ''p'' ''x'' ''y'') (PyInt 200) PyNone)
     = Content (Some []) \<and>
   json_on_second_attempt 2 (primary_request (ChatGPT_prompt ''p'' ''x'' ''y'') (PyInt 200))
     = Content (Some sample_json) \<and>
   fst (ChatGPT_safe_generate_response json_loads_sample json_on_second_attempt ''p'' ''x'' ''y'' 3
         (PyStr ''error'') accept_nonempty keep []) = PyStr ''ok'' \<and>
   primary_calls (snd (ChatGPT_safe_generate_response json_loads_sample json_on_second_attempt
         ''p'' ''x'' ''y'' 3 (PyStr ''error'') accept_nonempty keep [])) = 2"
proof -
  have h1: "json_loads_sample [] = Inl JSONDecodeError"
    by (rule sample_decode_empty)
  have h2: "json_loads_sample sample_json = Inr (PyDict [(''output'', PyStr ''ok'')])"
    by (rule sample_decode)
  have h3: "json_on_second_attempt 0 (primary_request (ChatGPT_prompt ''p'' ''x'' ''y'') (PyInt 200))
      = Content (Some [])"
    and h4: "json_on_second_attempt 1
        (fallback_request (ChatGPT_prompt ''p'' ''x'' ''y'') (PyInt 200) PyNone)
      = Content (Some [])"
    and h5: "json_on_second_attempt 2 (primary_request (ChatGPT_prompt ''p'' ''x'' ''y'') (PyInt 200))
      = Content (Some sample_json)"
    by (simp_all add: json_on_second_attempt_def)
  from scenario_returns_ok_after_two_calls [OF h1 h2 h3 h4 h5, of "PyStr ''error''"]
    h1 h2 h3 h4 h5
  show ?thesis by blast
qed

subsection \<open>Empty and blank responses\<close>

text \<open>
  Claim C7, as stated, fails for \<^verbatim>\<open>safe_generate_response\<close> and
  \<^verbatim>\<open>ChatGPT_safe_generate_response_OLD\<close>: neither tests the response for
  emptiness, so the empty string is handed to the validator, and with a validator that
  accepts it the first attempt returns the cleaned-up empty string.
\<close>

theorem empty_candidate_counterexample:
  "safe_generate_response answers_blank ''p'' (PyDict []) 3 (PyStr ''error'') accept_all keep [] =
     (Inr (PyStr []), [primary_request ''p'' (PyInt 50), fallback_request ''p'' (PyInt 50) PyNone]) \<and>
   ChatGPT_safe_generate_response_OLD answers_blank ''p'' 3 (PyStr ''error'') accept_all keep [] =
     (PyStr [], [primary_request ''p'' (PyInt 200), fallback_request ''p'' (PyInt 200) PyNone])"
proof -
  have g: "GPT_request answers_blank ''p'' (PyDict []) [] =
      ([], [primary_request ''p'' (PyInt 50), fallback_request ''p'' (PyInt 50) PyNone])"
    by (simp add: GPT_request_def answers_blank_primitive)
  have r: "ChatGPT_request answers_blank ''p'' [] =
      ([], [primary_request ''p'' (PyInt 200), fallback_request ''p'' (PyInt 200) PyNone])"
    by (simp add: ChatGPT_request_def answers_blank_primitive)
  have 1: "safe_generate_response answers_blank ''p'' (PyDict []) 3 (PyStr ''error'') accept_all keep [] =
     (Inr (PyStr []), [primary_request ''p'' (PyInt 50), fallback_request ''p'' (PyInt 50) PyNone])"
    by (rule safe_first_success [OF _ g]) (simp_all add: sentinels_def accept_all_def keep_def)
  have 2: "ChatGPT_safe_generate_response_OLD answers_blank ''p'' 3 (PyStr ''error'') accept_all keep [] =
     (PyStr [], [primary_request ''p'' (PyInt 200), fallback_request ''p'' (PyInt 200) PyNone])"
    by (rule OLD_first_success [OF _ r]) (simp_all add: accept_all_def keep_def)
  from 1 2 show ?thesis by simp
qed

text \<open>
  Claim C7, amended. Inside the primitive, when the first call gives no text (it raised,
  or its content is \<^verbatim>\<open>None\<close>, empty or whitespace only) and the second call
  returns a content that is \<^verbatim>\<open>None\<close>, empty or whitespace only, the
  response is the empty string, after the two requests. In
  \<^verbatim>\<open>ChatGPT_safe_generate_response\<close> and
  \<^verbatim>\<open>GPT4_safe_generate_response\<close> an attempt whose response is empty or
  blank goes on to the next iteration whatever the validator and the cleanup function
  are, provided that decoding the empty text raises, as \<^verbatim>\<open>json.loads\<close>
  does. In \<^verbatim>\<open>safe_generate_response\<close> and
  \<^verbatim>\<open>ChatGPT_safe_generate_response_OLD\<close> a response that is empty or blank
  is the empty string, and the empty string is the candidate that the validator
  receives: in the former the attempt goes on to the next iteration exactly when the
  validator returns \<^verbatim>\<open>False\<close> on it; in the latter exactly unless the
  validator accepts it and the cleanup function returns on it, so also when either of
  them raises.
\<close>

theorem empty_response_per_variant:
  "(gives_no_text (cl (length s) (primary_request q m)) \<and>
    cl (Suc (length s)) (fallback_request q m st) = Content c2 \<and>
    gives_no_text (Content c2) \<longrightarrow>
      gpt5_nano_complete cl q m st s =
        ([], s @ [primary_request q m, fallback_request q m st])) \<and>
   ((\<forall>ch \<in> set (fst (ChatGPT_request cl q s)). is_space ch) \<and> jl [] = Inl e0 \<longrightarrow>
      ChatGPT_attempt jl cl q v c s = (Next, snd (ChatGPT_request cl q s)) \<and>
      for_range (Suc n) (ChatGPT_attempt jl cl q v c) a s =
        for_range n (ChatGPT_attempt jl cl q v c) a (snd (ChatGPT_request cl q s))) \<and>
   ((\<forall>ch \<in> set (fst (GPT4_request cl q s)). is_space ch) \<and> jl [] = Inl e0 \<longrightarrow>
      GPT4_attempt jl cl q v c s = (Next, snd (GPT4_request cl q s)) \<and>
      for_range (Suc n) (GPT4_attempt jl cl q v c) a s =
        for_range n (GPT4_attempt jl cl q v c) a (snd (GPT4_request cl q s))) \<and>
   ((\<forall>ch \<in> set (fst (GPT_request cl q gp s)). is_space ch) \<longrightarrow>
      fst (GPT_request cl q gp s) = [] \<and>
      (fst (safe_attempt cl q gp v c s) = Next \<longleftrightarrow> v (PyStr []) q = Inr False)) \<and>
   ((\<forall>ch \<in> set (fst (ChatGPT_request cl q s)). is_space ch) \<longrightarrow>
      fst (ChatGPT_request cl q s) = [] \<and>
      (fst (ChatGPT_OLD_attempt cl q v c s) = Next \<longleftrightarrow>
         \<not> (v (PyStr []) q = Inr True \<and> (\<exists>r. c (PyStr []) q = Inr r))))"
proof (intro conjI impI)
  assume "gives_no_text (cl (length s) (primary_request q m)) \<and>
    cl (Suc (length s)) (fallback_request q m st) = Content c2 \<and>
    gives_no_text (Content c2)"
  then show "gpt5_nano_complete cl q m st s =
        ([], s @ [primary_request q m, fallback_request q m st])"
    by (intro gpt5_no_text_twice [where ?c2.0 = c2]) simp_all
next
  assume h: "(\<forall>ch \<in> set (fst (ChatGPT_request cl q s)). is_space ch) \<and> jl [] = Inl e0"
  then have "fst (ChatGPT_request cl q s) = []" by (intro blank_request_empty(1)) simp
  with h have "fst (ChatGPT_attempt jl cl q v c s) = Next"
    unfolding ChatGPT_attempt_Next_iff by (simp add: empty_slice)
  then show x: "ChatGPT_attempt jl cl q v c s = (Next, snd (ChatGPT_request cl q s))"
    by (simp add: prod_eq_iff ChatGPT_attempt_log)
  show "for_range (Suc n) (ChatGPT_attempt jl cl q v c) a s =
        for_range n (ChatGPT_attempt jl cl q v c) a (snd (ChatGPT_request cl q s))"
    using x by (rule for_range_Next_state)
next
  assume h: "(\<forall>ch \<in> set (fst (GPT4_request cl q s)). is_space ch) \<and> jl [] = Inl e0"
  then have "fst (GPT4_request cl q s) = []" by (intro blank_request_empty(2)) simp
  with h have "fst (GPT4_attempt jl cl q v c s) = Next"
    unfolding GPT4_attempt_Next_iff by (simp add: empty_slice)
  then show x: "GPT4_attempt jl cl q v c s = (Next, snd (GPT4_request cl q s))"
    by (simp add: prod_eq_iff GPT4_attempt_log)
  show "for_range (Suc n) (GPT4_attempt jl cl q v c) a s =
        for_range n (GPT4_attempt jl cl q v c) a (snd (GPT4_request cl q s))"
    using x by (rule for_range_Next_state)
next
  assume "\<forall>ch \<in> set (fst (GPT_request cl q gp s)). is_space ch"
  then show e: "fst (GPT_request cl q gp s) = []" by (rule blank_GPT_request_empty)
  show "fst (safe_attempt cl q gp v c s) = Next \<longleftrightarrow> v (PyStr []) q = Inr False"
    unfolding safe_attempt_Next_iff using e by (simp add: sentinels_def)
next
  assume "\<forall>ch \<in> set (fst (ChatGPT_request cl q s)). is_space ch"
  then show e: "fst (ChatGPT_request cl q s) = []" by (rule blank_request_empty(1))
  show "fst (ChatGPT_OLD_attempt cl q v c s) = Next \<longleftrightarrow>
         \<not> (v (PyStr []) q = Inr True \<and> (\<exists>r. c (PyStr []) q = Inr r))"
    unfolding OLD_attempt_Next_iff using e by simp
qed

theorem empty_response_per_variant_witness:
  "gives_no_text (Content (Some blank_text)) \<and>
   gpt5_nano_complete answers_blank ''q'' (PyInt 200) PyNone [] =
     ([], [primary_request ''q'' (PyInt 200), fallback_request ''q'' (PyInt 200) PyNone]) \<and>
   ChatGPT_attempt json_loads_sample answers_blank ''q'' accept_all keep [] =
     (Next, [primary_request ''q'' (PyInt 200), fallback_request ''q'' (PyInt 200) PyNone]) \<and>
   GPT4_attempt json_loads_sample answers_blank ''q'' accept_all keep [] =
     (Next, [primary_request ''q'' (PyInt 200), fallback_request ''q'' (PyInt 200) PyNone]) \<and>
   fst (GPT_request answers_blank ''q'' (PyDict []) []) = [] \<and>
   fst (safe_attempt answers_blank ''q'' (PyDict []) accept_all keep []) \<noteq> Next \<and>
   fst (safe_attempt answers_blank ''q'' (PyDict []) reject_all keep []) = Next \<and>
   fst (ChatGPT_request answers_blank ''q'' []) = [] \<and>
   fst (ChatGPT_OLD_attempt answers_blank ''q'' accept_all keep []) \<noteq> Next \<and>
   fst (ChatGPT_OLD_attempt answers_blank ''q'' reject_all keep []) = Next \<and>
   fst (ChatGPT_OLD_attempt answers_blank ''q'' accept_all raising_cleaner []) = Next \<and>
   fst (ChatGPT_OLD_attempt answers_blank ''q'' raising_validator keep []) = Next"
proof -
  have r: "ChatGPT_request answers_blank ''q'' [] =
      ([], [primary_request ''q'' (PyInt 200), fallback_request ''q'' (PyInt 200) PyNone])"
    "GPT4_request answers_blank ''q'' [] =
      ([], [primary_request ''q'' (PyInt 200), fallback_request ''q'' (PyInt 200) PyNone])"
    "GPT_request answers_blank ''q'' (PyDict []) [] =
      ([], [primary_request ''q'' (PyInt 50), fallback_request ''q'' (PyInt 50) PyNone])"
    by (simp_all add: ChatGPT_request_def GPT4_request_def GPT_request_def
        answers_blank_primitive)
  have b: "gives_no_text (answers_blank k req)" "answers_blank k req = Content (Some blank_text)"
    for k req
    using blank_text_no_text by (simp_all add: answers_blank_def)
  note w = empty_response_per_variant [where cl = answers_blank and q = "''q''"
      and s = "[]" and m = "PyInt 200" and st = PyNone and ?c2.0 = "Some blank_text"
      and jl = json_loads_sample and ?e0.0 = JSONDecodeError
      and n = 0 and a = "PyBool False" and gp = "PyDict []"]
  note w1 = w [where v = accept_all and c = keep]
  note w2 = w [where v = reject_all and c = keep]
  note w3 = w [where v = accept_all and c = raising_cleaner]
  note w4 = w [where v = raising_validator and c = keep]
  from w1 have c1: "gpt5_nano_complete answers_blank ''q'' (PyInt 200) PyNone [] =
     ([], [primary_request ''q'' (PyInt 200), fallback_request ''q'' (PyInt 200) PyNone])"
    using b blank_text_no_text by (simp del: gives_no_text.simps)
  from w1 have c2:
    "ChatGPT_attempt json_loads_sample answers_blank ''q'' accept_all keep [] =
       (Next, [primary_request ''q'' (PyInt 200), fallback_request ''q'' (PyInt 200) PyNone])"
    "GPT4_attempt json_loads_sample answers_blank ''q'' accept_all keep [] =
       (Next, [primary_request ''q'' (PyInt 200), fallback_request ''q'' (PyInt 200) PyNone])"
    by (simp_all add: r sample_decode_empty)
  from w1 have c3:
    "fst (safe_attempt answers_blank ''q'' (PyDict []) accept_all keep []) \<noteq> Next"
    "fst (ChatGPT_OLD_attempt answers_blank ''q'' accept_all keep []) \<noteq> Next"
    by (simp_all add: r accept_all_def keep_def)
  from w2 have c4:
    "fst (safe_attempt answers_blank ''q'' (PyDict []) reject_all keep []) = Next"
    "fst (ChatGPT_OLD_attempt answers_blank ''q'' reject_all keep []) = Next"
    by (simp_all add: r reject_all_def)
  from w3 have c5:
    "fst (ChatGPT_OLD_attempt answers_blank ''q'' accept_all raising_cleaner []) = Next"
    by (simp add: r raising_cleaner_def)
  from w4 have c6:
    "fst (ChatGPT_OLD_attempt answers_blank ''q'' raising_validator keep []) = Next"
    by (simp add: r raising_validator_def)
  from c1 c2 c3 c4 c5 c6 r blank_text_no_text show ?thesis by simp
qed

subsection \<open>The decoded response\<close>

text \<open>
  Claim C8. In \<^verbatim>\<open>ChatGPT_safe_generate_response\<close> and
  \<^verbatim>\<open>GPT4_safe_generate_response\<close>, the text that is decoded is the stripped
  response cut after its last closing brace: the prefix that ends with the last
  \<^verbatim>\<open>}\<close> when there is one, the empty text otherwise. An attempt returns
  only if that text decodes to a dict with the key \<^verbatim>\<open>"output"\<close> (whose
  value then passes the validator and is cleaned up). Whenever the text does not decode
  to such a dict, because decoding raises, or yields no dict, or the key is missing, the
  attempt fails: the handler swallows the exception and the loop goes on with the next
  attempt, one unit of the retry count spent, in the state left by the one request.
\<close>

theorem json_attempt_succeeds_only_with_output_key:
  "(fst (ChatGPT_attempt jl cl q v c s) = Return r \<longrightarrow>
      (\<exists>kvs out.
         jl (slice_to (strip (fst (ChatGPT_request cl q s)))
               (rfind (strip (fst (ChatGPT_request cl q s))) (CHR ''}'') + 1))
           = Inr (PyDict kvs) \<and>
         map_of kvs ''output'' = Some out \<and> v out q = Inr True \<and> c out q = Inr r)) \<and>
   (\<not> (\<exists>kvs out.
         jl (slice_to (strip (fst (ChatGPT_request cl q s)))
               (rfind (strip (fst (ChatGPT_request cl q s))) (CHR ''}'') + 1))
           = Inr (PyDict kvs) \<and>
         map_of kvs ''output'' = Some out) \<longrightarrow>
      ChatGPT_attempt jl cl q v c s = (Next, snd (ChatGPT_request cl q s)) \<and>
      for_range (Suc n) (ChatGPT_attempt jl cl q v c) a s =
        for_range n (ChatGPT_attempt jl cl q v c) a (snd (ChatGPT_request cl q s))) \<and>
   (fst (GPT4_attempt jl cl q v c s) = Return r \<longrightarrow>
      (\<exists>kvs out.
         jl (slice_to (strip (fst (GPT4_request cl q s)))
               (rfind (strip (fst (GPT4_request cl q s))) (CHR ''}'') + 1))
           = Inr (PyDict kvs) \<and>
         map_of kvs ''output'' = Some out \<and> v out q = Inr True \<and> c out q = Inr r)) \<and>
   (\<not> (\<exists>kvs out.
         jl (slice_to (strip (fst (GPT4_request cl q s)))
               (rfind (strip (fst (GPT4_request cl q s))) (CHR ''}'') + 1))
           = Inr (PyDict kvs) \<and>
         map_of kvs ''output'' = Some out) \<longrightarrow>
      GPT4_attempt jl cl q v c s = (Next, snd (GPT4_request cl q s)) \<and>
      for_range (Suc n) (GPT4_attempt jl cl q v c) a s =
        for_range n (GPT4_attempt jl cl q v c) a (snd (GPT4_request cl q s))) \<and>
   (CHR ''}'' \<in> set tx \<longrightarrow>
      (\<exists>rest. tx = slice_to tx (rfind tx (CHR ''}'') + 1) @ rest \<and>
         slice_to tx (rfind tx (CHR ''}'') + 1) \<noteq> [] \<and>
         last (slice_to tx (rfind tx (CHR ''}'') + 1)) = CHR ''}'' \<and>
         CHR ''}'' \<notin> set rest)) \<and>
   (CHR ''}'' \<notin> set tx \<longrightarrow> slice_to tx (rfind tx (CHR ''}'') + 1) = [])"
proof (intro conjI impI)
  assume "fst (ChatGPT_attempt jl cl q v c s) = Return r"
  then show "\<exists>kvs out.
         jl (slice_to (strip (fst (ChatGPT_request cl q s)))
               (rfind (strip (fst (ChatGPT_request cl q s))) (CHR ''}'') + 1))
           = Inr (PyDict kvs) \<and>
         map_of kvs ''output'' = Some out \<and> v out q = Inr True \<and> c out q = Inr r"
    by (simp add: ChatGPT_attempt_Return_iff)
next
  assume "fst (GPT4_attempt jl cl q v c s) = Return r"
  then show "\<exists>kvs out.
         jl (slice_to (strip (fst (GPT4_request cl q s)))
               (rfind (strip (fst (GPT4_request cl q s))) (CHR ''}'') + 1))
           = Inr (PyDict kvs) \<and>
         map_of kvs ''output'' = Some out \<and> v out q = Inr True \<and> c out q = Inr r"
    by (simp add: GPT4_attempt_Return_iff)
next
  assume h: "\<not> (\<exists>kvs out.
         jl (slice_to (strip (fst (ChatGPT_request cl q s)))
               (rfind (strip (fst (ChatGPT_request cl q s))) (CHR ''}'') + 1))
           = Inr (PyDict kvs) \<and>
         map_of kvs ''output'' = Some out)"
  then have "\<forall>r. fst (ChatGPT_attempt jl cl q v c s) \<noteq> Return r"
    unfolding ChatGPT_attempt_Return_iff by blast
  then have nx: "fst (ChatGPT_attempt jl cl q v c s) = Next"
    by (simp add: step_not_Return)
  then show "ChatGPT_attempt jl cl q v c s = (Next, snd (ChatGPT_request cl q s))"
    by (simp add: prod_eq_iff ChatGPT_attempt_log)
  from for_range_Next [of "ChatGPT_attempt jl cl q v c" s n a] nx
  show "for_range (Suc n) (ChatGPT_attempt jl cl q v c) a s =
        for_range n (ChatGPT_attempt jl cl q v c) a (snd (ChatGPT_request cl q s))"
    by (simp add: ChatGPT_attempt_log)
next
  assume h: "\<not> (\<exists>kvs out.
         jl (slice_to (strip (fst (GPT4_request cl q s)))
               (rfind (strip (fst (GPT4_request cl q s))) (CHR ''}'') + 1))
           = Inr (PyDict kvs) \<and>
         map_of kvs ''output'' = Some out)"
  then have "\<forall>r. fst (GPT4_attempt jl cl q v c s) \<noteq> Return r"
    unfolding GPT4_attempt_Return_iff by blast
  then have nx: "fst (GPT4_attempt jl cl q v c s) = Next"
    by (simp add: step_not_Return)
  then show "GPT4_attempt jl cl q v c s = (Next, snd (GPT4_request cl q s))"
    by (simp add: prod_eq_iff GPT4_attempt_log)
  from for_range_Next [of "GPT4_attempt jl cl q v c" s n a] nx
  show "for_range (Suc n) (GPT4_attempt jl cl q v c) a s =
        for_range n (GPT4_attempt jl cl q v c) a (snd (GPT4_request cl q s))"
    by (simp add: GPT4_attempt_log)
next
  assume "CHR ''}'' \<in> set tx"
  then show "\<exists>rest. tx = slice_to tx (rfind tx (CHR ''}'') + 1) @ rest \<and>
         slice_to tx (rfind tx (CHR ''}'') + 1) \<noteq> [] \<and>
         last (slice_to tx (rfind tx (CHR ''}'') + 1)) = CHR ''}'' \<and>
         CHR ''}'' \<notin> set rest"
    by (rule slice_through_last_brace)
next
  assume "CHR ''}'' \<notin> set tx"
  then show "slice_to tx (rfind tx (CHR ''}'') + 1) = []"
    by (rule slice_without_brace)
qed

theorem json_attempt_succeeds_only_with_output_key_witness:
  "fst (ChatGPT_attempt json_loads_sample answers_json ''q'' accept_nonempty keep [])
     = Return (PyStr ''ok'') \<and>
   (\<exists>kvs out.
      json_loads_sample (slice_to (strip (fst (ChatGPT_request answers_json ''q'' [])))
         (rfind (strip (fst (ChatGPT_request answers_json ''q'' []))) (CHR ''}'') + 1))
        = Inr (PyDict kvs) \<and>
      map_of kvs ''output'' = Some out \<and> accept_nonempty out ''q'' = Inr True \<and>
      keep out ''q'' = Inr (PyStr ''ok'')) \<and>
   fst (GPT4_attempt json_loads_sample answers_json ''q'' accept_nonempty keep [])
     = Return (PyStr ''ok'') \<and>
   (\<exists>kvs out.
      json_loads_sample (slice_to (strip (fst (GPT4_request answers_json ''q'' [])))
         (rfind (strip (fst (GPT4_request answers_json ''q'' []))) (CHR ''}'') + 1))
        = Inr (PyDict kvs) \<and>
      map_of kvs ''output'' = Some out \<and> accept_nonempty out ''q'' = Inr True \<and>
      keep out ''q'' = Inr (PyStr ''ok'')) \<and>
   ChatGPT_attempt json_loads_sample always_raises ''q'' accept_nonempty keep [] =
     (Next, [primary_request ''q'' (PyInt 200), fallback_request ''q'' (PyInt 200) PyNone]) \<and>
   GPT4_attempt json_loads_sample always_raises ''q'' accept_nonempty keep [] =
     (Next, [primary_request ''q'' (PyInt 200), fallback_request ''q'' (PyInt 200) PyNone]) \<and>
   CHR ''}'' \<in> set sample_json \<and>
   (\<exists>rest. sample_json = slice_to sample_json (rfind sample_json (CHR ''}'') + 1) @ rest \<and>
      slice_to sample_json (rfind sample_json (CHR ''}'') + 1) \<noteq> [] \<and>
      last (slice_to sample_json (rfind sample_json (CHR ''}'') + 1)) = CHR ''}'' \<and>
      CHR ''}'' \<notin> set rest) \<and>
   CHR ''}'' \<notin> set ''ChatGPT ERROR'' \<and>
   slice_to ''ChatGPT ERROR'' (rfind ''ChatGPT ERROR'' (CHR ''}'') + 1) = []"
proof -
  note wa = json_attempt_succeeds_only_with_output_key [where jl = json_loads_sample
      and cl = answers_json and q = "''q''" and v = accept_nonempty and c = keep and s = "[]"
      and r = "PyStr ''ok''" and tx = sample_json and n = 0 and a = "PyBool False"]
  note wb = json_attempt_succeeds_only_with_output_key [where jl = json_loads_sample
      and cl = always_raises and q = "''q''" and v = accept_nonempty and c = keep and s = "[]"
      and r = "PyStr ''ok''" and tx = "''ChatGPT ERROR''" and n = 0 and a = "PyBool False"]
  have ra: "ChatGPT_request answers_json ''q'' [] = (sample_json, [primary_request ''q'' (PyInt 200)])"
    "GPT4_request answers_json ''q'' [] = (sample_json, [primary_request ''q'' (PyInt 200)])"
    by (simp_all add: ChatGPT_request_def GPT4_request_def answers_json_primitive)
  have rb: "ChatGPT_request always_raises ''q'' [] =
      (''ChatGPT ERROR'', [primary_request ''q'' (PyInt 200), fallback_request ''q'' (PyInt 200) PyNone])"
    "GPT4_request always_raises ''q'' [] =
      (''ChatGPT ERROR'', [primary_request ''q'' (PyInt 200), fallback_request ''q'' (PyInt 200) PyNone])"
    by (simp_all add: ChatGPT_request_def GPT4_request_def always_raises_primitive)
  have ok: "accept_nonempty (PyStr ''ok'') ''q'' = Inr True" "keep (PyStr ''ok'') ''q'' = Inr (PyStr ''ok'')"
    by (simp_all add: accept_nonempty_def keep_def)
  have ha: "fst (ChatGPT_attempt json_loads_sample answers_json ''q'' accept_nonempty keep [])
      = Return (PyStr ''ok'')"
    unfolding ChatGPT_attempt_Return_iff
    by (simp add: ra sample_strip sample_slice sample_decode ok)
  have ha4: "fst (GPT4_attempt json_loads_sample answers_json ''q'' accept_nonempty keep [])
      = Return (PyStr ''ok'')"
    unfolding GPT4_attempt_Return_iff
    by (simp add: ra sample_strip sample_slice sample_decode ok)
  have hb: "\<not> (\<exists>kvs out.
      json_loads_sample (slice_to (strip (fst (ChatGPT_request always_raises ''q'' [])))
         (rfind (strip (fst (ChatGPT_request always_raises ''q'' []))) (CHR ''}'') + 1))
        = Inr (PyDict kvs) \<and> map_of kvs ''output'' = Some out)"
    by (simp only: rb fst_conv error_text_slice sample_decode_empty) simp
  have hb4: "\<not> (\<exists>kvs out.
      json_loads_sample (slice_to (strip (fst (GPT4_request always_raises ''q'' [])))
         (rfind (strip (fst (GPT4_request always_raises ''q'' []))) (CHR ''}'') + 1))
        = Inr (PyDict kvs) \<and> map_of kvs ''output'' = Some out)"
    by (simp only: rb fst_conv error_text_slice sample_decode_empty) simp
  have br: "CHR ''}'' \<in> set sample_json" "CHR ''}'' \<notin> set ''ChatGPT ERROR''"
    by code_simp+
  from wa ha have c1: "\<exists>kvs out.
      json_loads_sample (slice_to (strip (fst (ChatGPT_request answers_json ''q'' [])))
         (rfind (strip (fst (ChatGPT_request answers_json ''q'' []))) (CHR ''}'') + 1))
        = Inr (PyDict kvs) \<and>
      map_of kvs ''output'' = Some out \<and> accept_nonempty out ''q'' = Inr True \<and>
      keep out ''q'' = Inr (PyStr ''ok'')"
    by blast
  from wa ha4 have c2: "\<exists>kvs out.
      json_loads_sample (slice_to (strip (fst (GPT4_request answers_json ''q'' [])))
         (rfind (strip (fst (GPT4_request answers_json ''q'' []))) (CHR ''}'') + 1))
        = Inr (PyDict kvs) \<and>
      map_of kvs ''output'' = Some out \<and> accept_nonempty out ''q'' = Inr True \<and>
      keep out ''q'' = Inr (PyStr ''ok'')"
    by blast
  from wb hb have c3: "ChatGPT_attempt json_loads_sample always_raises ''q'' accept_nonempty keep []
      = (Next, snd (ChatGPT_request always_raises ''q'' []))"
    by blast
  from wb hb4 have c4: "GPT4_attempt json_loads_sample always_raises ''q'' accept_nonempty keep []
      = (Next, snd (GPT4_request always_raises ''q'' []))"
    by blast
  from wa br(1) have c5: "\<exists>rest.
      sample_json = slice_to sample_json (rfind sample_json (CHR ''}'') + 1) @ rest \<and>
      slice_to sample_json (rfind sample_json (CHR ''}'') + 1) \<noteq> [] \<and>
      last (slice_to sample_json (rfind sample_json (CHR ''}'') + 1)) = CHR ''}'' \<and>
      CHR ''}'' \<notin> set rest"
    by blast
  from wb br(2) have c6: "slice_to ''ChatGPT ERROR'' (rfind ''ChatGPT ERROR'' (CHR ''}'') + 1) = []"
    by blast
  from c3 c4 have c34:
    "ChatGPT_attempt json_loads_sample always_raises ''q'' accept_nonempty keep [] =
       (Next, [primary_request ''q'' (PyInt 200), fallback_request ''q'' (PyInt 200) PyNone])"
    "GPT4_attempt json_loads_sample always_raises ''q'' accept_nonempty keep [] =
       (Next, [primary_request ''q'' (PyInt 200), fallback_request ''q'' (PyInt 200) PyNone])"
    by (simp_all add: rb)
  show ?thesis
    using ha c1 ha4 c2 c34 br c5 c6 by (intro conjI)
qed

subsection \<open>The error strings\<close>

text \<open>
  Claim C9, as stated, fails for \<^verbatim>\<open>GPT_request\<close>: what the transport
  raises never reaches its handler, since the primitive catches it. With a dict of
  generation parameters and a client that raises on every call,
  \<^verbatim>\<open>GPT_request\<close> returns \<^verbatim>\<open>"ChatGPT ERROR"\<close>, not
  \<^verbatim>\<open>"TOKEN LIMIT EXCEEDED"\<close>.
\<close>

theorem raising_transport_counterexample:
  "always_raises 0 (primary_request ''p'' (PyInt 50)) = Raises APIError \<and>
   always_raises 1 (fallback_request ''p'' (PyInt 50) PyNone) = Raises APIError \<and>
   GPT_request always_raises ''p'' (PyDict []) [] =
     (''ChatGPT ERROR'',
      [primary_request ''p'' (PyInt 50), fallback_request ''p'' (PyInt 50) PyNone]) \<and>
   ''ChatGPT ERROR'' \<noteq> ''TOKEN LIMIT EXCEEDED''"
  by (simp add: GPT_request_def always_raises_primitive always_raises_def)

text \<open>
  Claim C9, amended. Failure is reported as an ordinary string.
  \<^verbatim>\<open>GPT_request\<close> returns \<^verbatim>\<open>"TOKEN LIMIT EXCEEDED"\<close>, without
  making a call, when reading one of the two generation parameters raises; when both
  are read, it returns what the primitive returns. The primitive returns
  \<^verbatim>\<open>"ChatGPT ERROR"\<close>, after its two requests, when the first call gave no
  text and the second call raised; so \<^verbatim>\<open>GPT_request\<close> returns
  \<^verbatim>\<open>"ChatGPT ERROR"\<close> when both calls raise.
  \<^verbatim>\<open>safe_generate_response\<close> fails every attempt whose response equals one
  of the two strings, whatever the validator and the cleanup function are: they are not
  called, and the loop goes on. A text of the model whose stripped form is one of the
  two strings is such a response, so it is discarded as well.
\<close>

theorem error_strings_signal_failure:
  "((\<exists>e. get_default gp ''max_tokens'' (PyInt 50) = Inl e) \<or>
    (\<exists>e. get_default gp ''stop'' PyNone = Inl e) \<longrightarrow>
      GPT_request cl p gp s = (''TOKEN LIMIT EXCEEDED'', s)) \<and>
   (get_default gp ''max_tokens'' (PyInt 50) = Inr mx \<and>
    get_default gp ''stop'' PyNone = Inr stp \<longrightarrow>
      GPT_request cl p gp s = gpt5_nano_complete cl p mx stp s) \<and>
   (gives_no_text (cl (length s) (primary_request p m)) \<and>
    cl (Suc (length s)) (fallback_request p m st) = Raises e2 \<longrightarrow>
      gpt5_nano_complete cl p m st s =
        (''ChatGPT ERROR'', s @ [primary_request p m, fallback_request p m st])) \<and>
   (get_default gp ''max_tokens'' (PyInt 50) = Inr mx \<and>
    get_default gp ''stop'' PyNone = Inr stp \<and>
    cl (length s) (primary_request p mx) = Raises e1 \<and>
    cl (Suc (length s)) (fallback_request p mx stp) = Raises e2 \<longrightarrow>
      GPT_request cl p gp s =
        (''ChatGPT ERROR'', s @ [primary_request p mx, fallback_request p mx stp])) \<and>
   (fst (GPT_request cl p gp s) = ''TOKEN LIMIT EXCEEDED'' \<or>
    fst (GPT_request cl p gp s) = ''ChatGPT ERROR'' \<longrightarrow>
      safe_attempt cl p gp v c s = (Next, snd (GPT_request cl p gp s)) \<and>
      for_range (Suc n) (safe_attempt cl p gp v c) a s =
        for_range n (safe_attempt cl p gp v c) a (snd (GPT_request cl p gp s))) \<and>
   (get_default gp ''max_tokens'' (PyInt 50) = Inr mx \<and>
    get_default gp ''stop'' PyNone = Inr stp \<and>
    cl (length s) (primary_request p mx) = Content (Some tx) \<and>
    (strip tx = ''TOKEN LIMIT EXCEEDED'' \<or> strip tx = ''ChatGPT ERROR'') \<longrightarrow>
      safe_attempt cl p gp v c s = (Next, s @ [primary_request p mx]))"
proof (intro conjI impI)
  assume "(\<exists>e. get_default gp ''max_tokens'' (PyInt 50) = Inl e) \<or>
    (\<exists>e. get_default gp ''stop'' PyNone = Inl e)"
  then show "GPT_request cl p gp s = (''TOKEN LIMIT EXCEEDED'', s)"
    by (auto simp: GPT_request_def split: sum.splits)
next
  assume "get_default gp ''max_tokens'' (PyInt 50) = Inr mx \<and>
    get_default gp ''stop'' PyNone = Inr stp"
  then show "GPT_request cl p gp s = gpt5_nano_complete cl p mx stp s"
    by (simp add: GPT_request_dict)
next
  assume "gives_no_text (cl (length s) (primary_request p m)) \<and>
    cl (Suc (length s)) (fallback_request p m st) = Raises e2"
  then show "gpt5_nano_complete cl p m st s =
        (''ChatGPT ERROR'', s @ [primary_request p m, fallback_request p m st])"
    by (intro gpt5_fallback_raises [where ?e2.0 = e2]) simp_all
next
  assume h: "get_default gp ''max_tokens'' (PyInt 50) = Inr mx \<and>
    get_default gp ''stop'' PyNone = Inr stp \<and>
    cl (length s) (primary_request p mx) = Raises e1 \<and>
    cl (Suc (length s)) (fallback_request p mx stp) = Raises e2"
  then have "gpt5_nano_complete cl p mx stp s =
      (''ChatGPT ERROR'', s @ [primary_request p mx, fallback_request p mx stp])"
    by (intro gpt5_fallback_raises [where ?e2.0 = e2]) simp_all
  with h show "GPT_request cl p gp s =
      (''ChatGPT ERROR'', s @ [primary_request p mx, fallback_request p mx stp])"
    by (simp add: GPT_request_dict)
next
  assume "fst (GPT_request cl p gp s) = ''TOKEN LIMIT EXCEEDED'' \<or>
    fst (GPT_request cl p gp s) = ''ChatGPT ERROR''"
  then have m: "fst (GPT_request cl p gp s) \<in> set sentinels"
    by (auto simp: sentinels_def)
  then show a: "safe_attempt cl p gp v c s = (Next, snd (GPT_request cl p gp s))"
    by (rule safe_attempt_sentinel)
  from for_range_Next [of "safe_attempt cl p gp v c" s n a] a
  show "for_range (Suc n) (safe_attempt cl p gp v c) a s =
        for_range n (safe_attempt cl p gp v c) a (snd (GPT_request cl p gp s))"
    by simp
next
  assume h: "get_default gp ''max_tokens'' (PyInt 50) = Inr mx \<and>
    get_default gp ''stop'' PyNone = Inr stp \<and>
    cl (length s) (primary_request p mx) = Content (Some tx) \<and>
    (strip tx = ''TOKEN LIMIT EXCEEDED'' \<or> strip tx = ''ChatGPT ERROR'')"
  then have ne: "strip tx \<noteq> []" by auto
  from h have "visible (cl (length s) (primary_request p mx)) = Some (strip tx)"
    using visible_text [OF ne] by simp
  then have "gpt5_nano_complete cl p mx stp s = (strip tx, s @ [primary_request p mx])"
    by (rule gpt5_primary_success)
  with h have g: "GPT_request cl p gp s = (strip tx, s @ [primary_request p mx])"
    by (simp add: GPT_request_dict)
  from h have "strip tx \<in> set sentinels" by (auto simp: sentinels_def)
  with g safe_attempt_sentinel [of cl p gp s v c]
  show "safe_attempt cl p gp v c s = (Next, s @ [primary_request p mx])"
    by simp
qed

theorem error_strings_signal_failure_witness:
  "GPT_request always_raises ''p'' PyNone [] = (''TOKEN LIMIT EXCEEDED'', []) \<and>
   GPT_request answers_json ''p'' (PyDict []) [] =
     gpt5_nano_complete answers_json ''p'' (PyInt 50) PyNone [] \<and>
   gpt5_nano_complete always_raises ''p'' (PyInt 50) PyNone [] =
     (''ChatGPT ERROR'',
      [primary_request ''p'' (PyInt 50), fallback_request ''p'' (PyInt 50) PyNone]) \<and>
   GPT_request always_raises ''p'' (PyDict []) [] =
     (''ChatGPT ERROR'',
      [primary_request ''p'' (PyInt 50), fallback_request ''p'' (PyInt 50) PyNone]) \<and>
   safe_attempt always_raises ''p'' PyNone accept_nonempty keep [] = (Next, []) \<and>
   safe_attempt always_raises ''p'' (PyDict []) accept_nonempty keep [] =
     (Next, [primary_request ''p'' (PyInt 50), fallback_request ''p'' (PyInt 50) PyNone]) \<and>
   safe_attempt says_error ''p'' (PyDict []) accept_nonempty keep [] =
     (Next, [primary_request ''p'' (PyInt 50)])"
proof -
  note w = error_strings_signal_failure [where p = "''p''" and s = "[]" and m = "PyInt 50"
      and st = PyNone and ?e1.0 = APIError and ?e2.0 = APIError
      and v = accept_nonempty and c = keep and n = 0 and a = "Inr (PyStr ''rest'')"
      and mx = "PyInt 50" and stp = PyNone and tx = "''ChatGPT ERROR''"]
  note w1 = w [where gp = PyNone and cl = always_raises]
  note w2 = w [where gp = "PyDict []" and cl = always_raises]
  note w3 = w [where gp = "PyDict []" and cl = says_error]
  note w4 = w [where gp = "PyDict []" and cl = answers_json]
  from w1 have c1: "GPT_request always_raises ''p'' PyNone [] = (''TOKEN LIMIT EXCEEDED'', [])"
    by simp
  from w4 have c2: "GPT_request answers_json ''p'' (PyDict []) [] =
      gpt5_nano_complete answers_json ''p'' (PyInt 50) PyNone []"
    by simp
  from w2 have c3: "gpt5_nano_complete always_raises ''p'' (PyInt 50) PyNone [] =
      (''ChatGPT ERROR'',
       [primary_request ''p'' (PyInt 50), fallback_request ''p'' (PyInt 50) PyNone])"
    and c4: "GPT_request always_raises ''p'' (PyDict []) [] =
      (''ChatGPT ERROR'',
       [primary_request ''p'' (PyInt 50), fallback_request ''p'' (PyInt 50) PyNone])"
    by (simp_all add: always_raises_def)
  from w1 c1 have c5: "safe_attempt always_raises ''p'' PyNone accept_nonempty keep [] = (Next, [])"
    by simp
  from w2 c4 have c6: "safe_attempt always_raises ''p'' (PyDict []) accept_nonempty keep [] =
      (Next, [primary_request ''p'' (PyInt 50), fallback_request ''p'' (PyInt 50) PyNone])"
    by simp
  from w3 have c7: "safe_attempt says_error ''p'' (PyDict []) accept_nonempty keep [] =
      (Next, [primary_request ''p'' (PyInt 50)])"
    by (simp add: says_error_def error_text_strip)
  from c1 c2 c3 c4 c5 c6 c7 show ?thesis by (intro conjI)
qed

subsection \<open>A retry count that is not positive\<close>

text \<open>
  Claim C10. When \<open>repeat\<close> is zero or negative, \<^verbatim>\<open>range(repeat)\<close> is empty:
  each of the four retry functions makes no call (the log of requests is returned as it
  was) and returns what follows its loop, the fail-safe value for
  \<^verbatim>\<open>safe_generate_response\<close> and
  \<^verbatim>\<open>ChatGPT_safe_generate_response_OLD\<close>, and \<^verbatim>\<open>False\<close> for
  \<^verbatim>\<open>GPT4_safe_generate_response\<close> and
  \<^verbatim>\<open>ChatGPT_safe_generate_response\<close>.
\<close>

theorem repeat_not_positive_makes_no_call:
  assumes "repeat \<le> 0"
  shows "safe_generate_response cl p gp repeat fs v c s = (Inr fs, s) \<and>
         ChatGPT_safe_generate_response_OLD cl p repeat fs v c s = (fs, s) \<and>
         GPT4_safe_generate_response jl cl p ex si repeat fs v c s = (PyBool False, s) \<and>
         ChatGPT_safe_generate_response jl cl p ex si repeat fs v c s = (PyBool False, s)"
  using assms
  by (simp add: safe_generate_response_def ChatGPT_safe_generate_response_OLD_def
      GPT4_safe_generate_response_def ChatGPT_safe_generate_response_def)

theorem repeat_not_positive_makes_no_call_witness:
  "(- 2 :: int) \<le> 0 \<and>
   safe_generate_response always_raises ''p'' (PyDict []) (- 2) (PyStr ''rest'')
     accept_nonempty keep [] = (Inr (PyStr ''rest''), []) \<and>
   ChatGPT_safe_generate_response_OLD always_raises ''p'' (- 2) (PyStr ''rest'')
     accept_nonempty keep [] = (PyStr ''rest'', []) \<and>
   GPT4_safe_generate_response json_loads_sample always_raises ''p'' ''x'' ''y'' (- 2)
     (PyStr ''rest'') accept_nonempty keep [] = (PyBool False, []) \<and>
   ChatGPT_safe_generate_response json_loads_sample always_raises ''p'' ''x'' ''y'' (- 2)
     (PyStr ''rest'') accept_nonempty keep [] = (PyBool False, [])"
  using repeat_not_positive_makes_no_call [of "- 2" always_raises "''p''" "PyDict []"
      "PyStr ''rest''" accept_nonempty keep "[]" json_loads_sample "''x''" "''y''"]
  by simp

end
